theory Spec2Isabelle
  imports Main "HOL-Library.Word"
begin

unbundle bit_operations_syntax

section \<open>Shadow path derivation: SHA-256, hex encoding, path joining\<close>

text \<open>
  \<^verbatim>\<open>repositoryShadowCreateDir\<close> hashes the bytes of the source URL with
  \<^verbatim>\<open>crypto/sha256\<close>, encodes the digest with \<^verbatim>\<open>hex.EncodeToString\<close> and joins it to the
  base path with \<^verbatim>\<open>filepath.Join\<close>. The three library functions are pure, so they are
  modelled as the functions they compute: SHA-256 after FIPS 180-4 on 32-bit words,
  the lowercase hex alphabet of \<^verbatim>\<open>encoding/hex\<close>, and the lexical \<^verbatim>\<open>Clean\<close> of
  \<^verbatim>\<open>path/filepath\<close> for slash-separated paths.
\<close>

type_synonym byte = "8 word"

text \<open>The round constants, eight rounds to a row.\<close>

definition K256_rounds_0 :: "32 word list" where
  "K256_rounds_0 =
    [0x428a2f98, 0x71374491, 0xb5c0fbcf, 0xe9b5dba5,
     0x3956c25b, 0x59f111f1, 0x923f82a4, 0xab1c5ed5]"

definition K256_rounds_8 :: "32 word list" where
  "K256_rounds_8 =
    [0xd807aa98, 0x12835b01, 0x243185be, 0x550c7dc3,
     0x72be5d74, 0x80deb1fe, 0x9bdc06a7, 0xc19bf174]"

definition K256_rounds_16 :: "32 word list" where
  "K256_rounds_16 =
    [0xe49b69c1, 0xefbe4786, 0x0fc19dc6, 0x240ca1cc,
     0x2de92c6f, 0x4a7484aa, 0x5cb0a9dc, 0x76f988da]"

definition K256_rounds_24 :: "32 word list" where
  "K256_rounds_24 =
    [0x983e5152, 0xa831c66d, 0xb00327c8, 0xbf597fc7,
     0xc6e00bf3, 0xd5a79147, 0x06ca6351, 0x14292967]"

definition K256_rounds_32 :: "32 word list" where
  "K256_rounds_32 =
    [0x27b70a85, 0x2e1b2138, 0x4d2c6dfc, 0x53380d13,
     0x650a7354, 0x766a0abb, 0x81c2c92e, 0x92722c85]"

definition K256_rounds_40 :: "32 word list" where
  "K256_rounds_40 =
    [0xa2bfe8a1, 0xa81a664b, 0xc24b8b70, 0xc76c51a3,
     0xd192e819, 0xd6990624, 0xf40e3585, 0x106aa070]"

definition K256_rounds_48 :: "32 word list" where
  "K256_rounds_48 =
    [0x19a4c116, 0x1e376c08, 0x2748774c, 0x34b0bcb5,
     0x391c0cb3, 0x4ed8aa4a, 0x5b9cca4f, 0x682e6ff3]"

definition K256_rounds_56 :: "32 word list" where
  "K256_rounds_56 =
    [0x748f82ee, 0x78a5636f, 0x84c87814, 0x8cc70208,
     0x90befffa, 0xa4506ceb, 0xbef9a3f7, 0xc67178f2]"

definition K256 :: "32 word list" where
  "K256 = K256_rounds_0 @ K256_rounds_8 @ K256_rounds_16 @ K256_rounds_24
          @ K256_rounds_32 @ K256_rounds_40 @ K256_rounds_48 @ K256_rounds_56"

type_synonym digest_state =
  "32 word \<times> 32 word \<times> 32 word \<times> 32 word \<times> 32 word \<times> 32 word \<times> 32 word \<times> 32 word"

definition init256 :: digest_state where
  "init256 = (0x6a09e667, 0xbb67ae85, 0x3c6ef372, 0xa54ff53a,
              0x510e527f, 0x9b05688c, 0x1f83d9ab, 0x5be0cd19)"

definition rotr :: "nat \<Rightarrow> 32 word \<Rightarrow> 32 word" where
  "rotr n x = drop_bit n x OR push_bit (32 - n) x"

definition sha_round :: "32 word \<times> 32 word \<Rightarrow> digest_state \<Rightarrow> digest_state" where
  "sha_round kw st =
     (case st of (a, b, c, d, e, f, g, h) \<Rightarrow>
        let t1 = h + (rotr 6 e XOR rotr 11 e XOR rotr 25 e) + ((e AND f) XOR (NOT e AND g))
                   + fst kw + snd kw;
            t2 = (rotr 2 a XOR rotr 13 a XOR rotr 22 a) + ((a AND b) XOR (a AND c) XOR (b AND c))
        in (t1 + t2, a, b, c, d + t1, e, f, g))"

definition sha_schedule :: "32 word list \<Rightarrow> 32 word list" where
  "sha_schedule ws =
     fold (\<lambda>i w. w @ [(rotr 17 (w ! (i - 2)) XOR rotr 19 (w ! (i - 2)) XOR drop_bit 10 (w ! (i - 2)))
                        + w ! (i - 7)
                        + (rotr 7 (w ! (i - 15)) XOR rotr 18 (w ! (i - 15)) XOR drop_bit 3 (w ! (i - 15)))
                        + w ! (i - 16)])
          [16..<64] ws"

definition be_word :: "byte list \<Rightarrow> 32 word" where
  "be_word bs = foldl (\<lambda>acc b. push_bit 8 acc OR ucast b) 0 bs"

definition be_bytes :: "32 word \<Rightarrow> byte list" where
  "be_bytes x = [ucast (drop_bit 24 x), ucast (drop_bit 16 x), ucast (drop_bit 8 x), ucast x]"

definition chunks :: "nat \<Rightarrow> 'a list \<Rightarrow> 'a list list" where
  "chunks n xs = map (\<lambda>i. take n (drop (i * n) xs)) [0..<length xs div n]"

definition sha_block :: "byte list \<Rightarrow> digest_state \<Rightarrow> digest_state" where
  "sha_block blk st =
     (case fold sha_round (zip K256 (sha_schedule (map be_word (chunks 4 blk)))) st of
        (a, b, c, d, e, f, g, h) \<Rightarrow>
          (case st of (a0, b0, c0, d0, e0, f0, g0, h0) \<Rightarrow>
             (a0 + a, b0 + b, c0 + c, d0 + d, e0 + e, f0 + f, g0 + g, h0 + h)))"

definition sha_pad :: "byte list \<Rightarrow> byte list" where
  "sha_pad m =
     m @ [0x80] @ replicate ((119 - length m mod 64) mod 64) 0
       @ map (\<lambda>i. ucast (drop_bit (8 * (7 - i)) (word_of_nat (8 * length m) :: 64 word))) [0..<8]"

definition sha256_Sum :: "byte list \<Rightarrow> byte list" where
  "sha256_Sum m =
     (case fold sha_block (chunks 64 (sha_pad m)) init256 of
        (a, b, c, d, e, f, g, h) \<Rightarrow>
          be_bytes a @ be_bytes b @ be_bytes c @ be_bytes d
            @ be_bytes e @ be_bytes f @ be_bytes g @ be_bytes h)"

definition hextable :: string where
  "hextable = ''0123456789abcdef''"

definition hex_EncodeToString :: "byte list \<Rightarrow> string" where
  "hex_EncodeToString bs =
     concat (map (\<lambda>b. [hextable ! unat (drop_bit 4 b), hextable ! unat (b AND 0x0f)]) bs)"

text \<open>The conversion \<^verbatim>\<open>[]byte(s)\<close>: a Go string is its byte sequence.\<close>

definition string_bytes :: "string \<Rightarrow> byte list" where
  "string_bytes s = map (\<lambda>c. word_of_nat (of_char c)) s"

fun split_on :: "char \<Rightarrow> string \<Rightarrow> string list" where
  "split_on sep [] = [[]]"
| "split_on sep (x # xs) =
     (if x = sep then [] # split_on sep xs
      else (case split_on sep xs of [] \<Rightarrow> [[x]] | y # ys \<Rightarrow> (x # y) # ys))"

fun join_with :: "string \<Rightarrow> string list \<Rightarrow> string" where
  "join_with sep [] = []"
| "join_with sep [x] = x"
| "join_with sep (x # y # ys) = x @ sep @ join_with sep (y # ys)"

text \<open>
  One element of the path, processed by \<^verbatim>\<open>Clean\<close>; the elements kept so far are held
  newest first. Empty elements and \<^verbatim>\<open>.\<close> vanish; \<^verbatim>\<open>..\<close> removes the element before
  it, is dropped at the root of a rooted path and is kept at the front of a relative one.
\<close>

definition clean_step :: "bool \<Rightarrow> string list \<Rightarrow> string \<Rightarrow> string list" where
  "clean_step rooted st el =
     (if el = [] \<or> el = ''.'' then st
      else if el = ''..'' then
        (case st of
           [] \<Rightarrow> if rooted then [] else [''..'']
         | t # ts \<Rightarrow> if t = ''..'' then ''..'' # st else ts)
      else el # st)"

definition filepath_Clean :: "string \<Rightarrow> string" where
  "filepath_Clean p =
     (let rooted = (take 1 p = ''/'');
          kept = rev (foldl (clean_step rooted) [] (split_on CHR ''/'' p));
          out = (if rooted then ''/'' else []) @ join_with ''/'' kept
      in if out = [] then ''.'' else out)"

text \<open>\<^verbatim>\<open>filepath.Join\<close>: leading empty elements are skipped, the rest joined and cleaned.\<close>

definition filepath_Join :: "string list \<Rightarrow> string" where
  "filepath_Join elem =
     (case dropWhile (\<lambda>e. e = []) elem of
        [] \<Rightarrow> []
      | es \<Rightarrow> filepath_Clean (join_with ''/'' es))"

section \<open>Configuration\<close>

record RepositoryAccess =
  RepoName :: string
  RepoUrl :: string
  RepoPemFileName :: string
  RepoPemFilePassword :: string
  RepoSkipHostKeyValidation :: bool

record RepositorySyncOption =
  SourceName :: string
  DestinationName :: string

text \<open>
  \<^verbatim>\<open>Repositories\<close> is a slice of pointers: an element may be nil (\<open>None\<close>), as
  a \<^verbatim>\<open>null\<close> entry of the JSON array leaves it.
\<close>

record RepositoriesSyncConfiguration =
  ShadowsLocationBasePath :: string
  Repositories :: "RepositoryAccess option list"
  SyncOptions :: "RepositorySyncOption option list"

text \<open>A Go call either yields its value or panics (a nil pointer is dereferenced).\<close>

datatype 'a go = Val 'a | Panic

text \<open>
  \<^verbatim>\<open>getRepositoryAccess\<close>: the first element with the name, nil when there is none.
  Reading \<^verbatim>\<open>e.RepoName\<close> of a nil element panics.
\<close>

fun lookupRepositoryAccess :: "RepositoryAccess option list \<Rightarrow> string \<Rightarrow> RepositoryAccess option go" where
  "lookupRepositoryAccess [] repoName = Val None"
| "lookupRepositoryAccess (None # es) repoName = Panic"
| "lookupRepositoryAccess (Some e # es) repoName =
     (if RepoName e = repoName then Val (Some e) else lookupRepositoryAccess es repoName)"

definition getRepositoryAccess ::
  "RepositoriesSyncConfiguration \<Rightarrow> string \<Rightarrow> RepositoryAccess option go" where
  "getRepositoryAccess rsc repoName = lookupRepositoryAccess (Repositories rsc) repoName"

section \<open>The world the program acts on\<close>

text \<open>
  The errors the program tells apart are go-git's sentinel values; every other
  error (I/O, transport, authentication) is an \<open>OtherError\<close> carrying its message.
\<close>

datatype error =
    ErrRepositoryNotExists
  | ErrRepositoryAlreadyExists
  | ErrRemoteNotFound
  | ErrRemoteExists
  | NoErrAlreadyUpToDate
  | OtherError string

record RemoteConfig =
  Name :: string
  URLs :: "string list"
  Fetch :: "string list"

datatype host_key_callback = KnownHosts | InsecureIgnoreHostKey

record PublicKeys =
  User :: string
  Signer :: string
  HostKeyCallback :: host_key_callback

text \<open>
  What a bare repository keeps on disk: the remote sections of its configuration file
  and its references (name and object id), in file order.
\<close>

record storage =
  remotes :: "(string \<times> RemoteConfig) list"
  refs :: "(string \<times> string) list"

text \<open>
  A \<^verbatim>\<open>*git.Repository\<close> opened by \<^verbatim>\<open>PlainOpen\<close> or \<^verbatim>\<open>PlainInit\<close> is a handle on
  the storage at its path. A \<^verbatim>\<open>*git.Remote\<close> holds its own \<^verbatim>\<open>RemoteConfig\<close> value,
  decoded from the configuration file when the remote was looked up, beside the handle.
\<close>

datatype repository = Repository (Storer: string)

datatype remote = Remote (remote_c: RemoteConfig) (remote_s: string)

datatype event =
    EvMkdirAll string "32 word"
  | EvNewPublicKeysFromFile string string string
  | EvPlainOpen string
  | EvPlainInit string bool
  | EvCreateRemote string RemoteConfig
  | EvFetch string "string list" "string list" PublicKeys
  | EvPush string "string list" "string list" PublicKeys

text \<open>
  \<open>disk\<close>: the repositories on the local file system, by path.
  \<open>upstream\<close>: the repositories reachable over the network, by URL, each with the
  references it advertises. \<open>trace\<close>: the library calls made so far, oldest first.
\<close>

record world =
  disk :: "string \<Rightarrow> storage option"
  upstream :: "string \<Rightarrow> (string \<times> string) list option"
  trace :: "event list"

text \<open>
  What the program cannot control: whether a file-system or network operation fails,
  and what a key file holds. Each is a function of the call's arguments and of the
  world at the call (the trace included, so two calls with the same arguments may
  differ); \<open>Some m\<close> is a failure with message \<open>m\<close>.
\<close>

record env =
  mkdir_fault :: "string \<Rightarrow> world \<Rightarrow> string option"
  key_load :: "string \<Rightarrow> string \<Rightarrow> world \<Rightarrow> string + string"
  open_fault :: "string \<Rightarrow> world \<Rightarrow> string option"
  init_fault :: "string \<Rightarrow> world \<Rightarrow> string option"
  config_fault :: "string \<Rightarrow> world \<Rightarrow> string option"
  transport_fault :: "string \<Rightarrow> PublicKeys \<Rightarrow> world \<Rightarrow> string option"

definition record_event :: "event \<Rightarrow> world \<Rightarrow> world" where
  "record_event ev w = w\<lparr>trace := trace w @ [ev]\<rparr>"

definition DefaultRemoteName :: string where
  "DefaultRemoteName = ''origin''"

definition mirror_refspec :: string where
  "mirror_refspec = ''+refs/*:refs/*''"

text \<open>The references a refspec with source \<^verbatim>\<open>refs/*\<close> selects.\<close>

definition under_refs :: "(string \<times> string) list \<Rightarrow> (string \<times> string) list" where
  "under_refs rs = filter (\<lambda>(n, h). take 5 n = ''refs/'') rs"

text \<open>
  Forced update of the target's references by the given ones: the references of the
  given names are replaced, the others are kept.
\<close>

definition force_update :: "(string \<times> string) list \<Rightarrow> (string \<times> string) list \<Rightarrow> (string \<times> string) list" where
  "force_update new old = filter (\<lambda>(n, h). map_of new n = None) old @ new"

text \<open>Nothing to transfer: the target already has every given reference at its object id.\<close>

definition up_to_date :: "(string \<times> string) list \<Rightarrow> (string \<times> string) list \<Rightarrow> bool" where
  "up_to_date new old = list_all (\<lambda>(n, h). map_of old n = Some h) new"

subsection \<open>The library calls\<close>

text \<open>\<^verbatim>\<open>os.MkdirAll(path, perm)\<close>; the directory tree itself is not tracked.\<close>

definition os_MkdirAll :: "env \<Rightarrow> string \<Rightarrow> 32 word \<Rightarrow> world \<Rightarrow> error option \<times> world" where
  "os_MkdirAll env p perm w =
     (case mkdir_fault env p w of
        Some m \<Rightarrow> (Some (OtherError m), record_event (EvMkdirAll p perm) w)
      | None \<Rightarrow> (None, record_event (EvMkdirAll p perm) w))"

definition ssh_NewPublicKeysFromFile ::
  "env \<Rightarrow> string \<Rightarrow> string \<Rightarrow> string \<Rightarrow> world \<Rightarrow> (PublicKeys option \<times> error option) \<times> world" where
  "ssh_NewPublicKeysFromFile env user pemFile password w =
     (case key_load env pemFile password w of
        Inl m \<Rightarrow> ((None, Some (OtherError m)),
                  record_event (EvNewPublicKeysFromFile user pemFile password) w)
      | Inr k \<Rightarrow> ((Some \<lparr>User = user, Signer = k, HostKeyCallback = KnownHosts\<rparr>, None),
                  record_event (EvNewPublicKeysFromFile user pemFile password) w))"

definition git_PlainOpen ::
  "env \<Rightarrow> string \<Rightarrow> world \<Rightarrow> (repository option \<times> error option) \<times> world" where
  "git_PlainOpen env p w =
     (case open_fault env p w of
        Some m \<Rightarrow> ((None, Some (OtherError m)), record_event (EvPlainOpen p) w)
      | None \<Rightarrow>
          (case disk w p of
             None \<Rightarrow> ((None, Some ErrRepositoryNotExists), record_event (EvPlainOpen p) w)
           | Some st \<Rightarrow> ((Some (Repository p), None), record_event (EvPlainOpen p) w)))"

definition git_PlainInit ::
  "env \<Rightarrow> string \<Rightarrow> bool \<Rightarrow> world \<Rightarrow> (repository option \<times> error option) \<times> world" where
  "git_PlainInit env p isBare w =
     (case init_fault env p w of
        Some m \<Rightarrow> ((None, Some (OtherError m)), record_event (EvPlainInit p isBare) w)
      | None \<Rightarrow>
          (case disk w p of
             Some st \<Rightarrow> ((None, Some ErrRepositoryAlreadyExists), record_event (EvPlainInit p isBare) w)
           | None \<Rightarrow>
               ((Some (Repository p), None),
                (record_event (EvPlainInit p isBare) w)
                  \<lparr>disk := (disk w)(p \<mapsto> \<lparr>remotes = [], refs = []\<rparr>)\<rparr>)))"

text \<open>
  \<^verbatim>\<open>Repository.CreateRemote\<close>: validates the configuration, refuses a name already
  present and writes the new section to the stored configuration.
\<close>

definition Repository_CreateRemote ::
  "env \<Rightarrow> repository \<Rightarrow> RemoteConfig \<Rightarrow> world \<Rightarrow> (remote option \<times> error option) \<times> world" where
  "Repository_CreateRemote env r cfg w =
     (let w' = record_event (EvCreateRemote (Storer r) cfg) w in
      if Name cfg = [] \<or> URLs cfg = [] then ((None, Some (OtherError ''invalid remote config'')), w')
      else
        (case config_fault env (Storer r) w of
           Some m \<Rightarrow> ((None, Some (OtherError m)), w')
         | None \<Rightarrow>
             (case disk w (Storer r) of
                None \<Rightarrow> ((None, Some (OtherError ''storage not found'')), w')
              | Some st \<Rightarrow>
                  (case map_of (remotes st) (Name cfg) of
                     Some old \<Rightarrow> ((None, Some ErrRemoteExists), w')
                   | None \<Rightarrow>
                       ((Some (Remote cfg (Storer r)), None),
                        w'\<lparr>disk := (disk w)(Storer r \<mapsto>
                              st\<lparr>remotes := remotes st @ [(Name cfg, cfg)]\<rparr>)\<rparr>)))))"

text \<open>
  \<^verbatim>\<open>Repository.Remote(name)\<close>: reads the stored configuration and returns a remote
  built on the section found there, or \<^verbatim>\<open>ErrRemoteNotFound\<close> with a nil remote.
\<close>

definition Repository_Remote ::
  "env \<Rightarrow> repository \<Rightarrow> string \<Rightarrow> world \<Rightarrow> (remote option \<times> error option) \<times> world" where
  "Repository_Remote env r name w =
     (case config_fault env (Storer r) w of
        Some m \<Rightarrow> ((None, Some (OtherError m)), w)
      | None \<Rightarrow>
          (case disk w (Storer r) of
             None \<Rightarrow> ((None, Some (OtherError ''storage not found'')), w)
           | Some st \<Rightarrow>
               (case map_of (remotes st) name of
                  None \<Rightarrow> ((None, Some ErrRemoteNotFound), w)
                | Some cfg \<Rightarrow> ((Some (Remote cfg (Storer r)), None), w))))"

text \<open>
  \<^verbatim>\<open>Remote.FetchContext\<close> with the remote's own fetch refspecs, from the first URL of
  the remote's configuration. A repository that advertises no reference at all cannot
  be fetched from: go-git answers \<^verbatim>\<open>transport.ErrEmptyRemoteRepository\<close>, an error
  like any other to the program. Only the catch-all forced refspec, the one the
  program writes, is interpreted; a remote carrying other refspecs is reported as a
  failure of the fetch.
\<close>

definition Remote_FetchContext ::
  "env \<Rightarrow> remote \<Rightarrow> PublicKeys \<Rightarrow> world \<Rightarrow> error option \<times> world" where
  "Remote_FetchContext env rem auth w =
     (let cfg = remote_c rem;
          w' = record_event (EvFetch (remote_s rem) (URLs cfg) (Fetch cfg) auth) w in
      case URLs cfg of
        [] \<Rightarrow> (Some (OtherError ''remote has no URL''), w')
      | u # us \<Rightarrow>
          (case transport_fault env u auth w of
             Some m \<Rightarrow> (Some (OtherError m), w')
           | None \<Rightarrow>
               (case upstream w u of
                  None \<Rightarrow> (Some (OtherError ''repository not found''), w')
                | Some adv \<Rightarrow>
                    if adv = []
                    then (Some (OtherError ''remote repository is empty''), w')
                    else if Fetch cfg \<noteq> [mirror_refspec]
                    then (Some (OtherError ''refspec not supported''), w')
                    else
                      (case disk w (remote_s rem) of
                         None \<Rightarrow> (Some (OtherError ''storage not found''), w')
                       | Some st \<Rightarrow>
                           if up_to_date (under_refs adv) (refs st)
                           then (Some NoErrAlreadyUpToDate, w')
                           else (None,
                                 w'\<lparr>disk := (disk w)(remote_s rem \<mapsto>
                                       st\<lparr>refs := force_update (under_refs adv) (refs st)\<rparr>)\<rparr>)))))"

text \<open>\<^verbatim>\<open>Repository.FetchContext\<close> looks the named remote up and fetches through it.\<close>

definition Repository_FetchContext ::
  "env \<Rightarrow> repository \<Rightarrow> string \<Rightarrow> PublicKeys \<Rightarrow> world \<Rightarrow> error option \<times> world" where
  "Repository_FetchContext env r remoteName auth w =
     (case Repository_Remote env r remoteName w of
        ((Some rem, None), w1) \<Rightarrow> Remote_FetchContext env rem auth w1
      | ((x, err), w1) \<Rightarrow> (err, w1))"

text \<open>
  \<^verbatim>\<open>Remote.PushContext\<close> with the given refspecs, to the URL of the remote's
  configuration (the program pushes through a one-element URL list). The local
  storage is read, the repository at the URL is updated.
\<close>

definition Remote_PushContext ::
  "env \<Rightarrow> remote \<Rightarrow> PublicKeys \<Rightarrow> string list \<Rightarrow> world \<Rightarrow> error option \<times> world" where
  "Remote_PushContext env rem auth refSpecs w =
     (let cfg = remote_c rem;
          w' = record_event (EvPush (remote_s rem) (URLs cfg) refSpecs auth) w in
      case URLs cfg of
        [] \<Rightarrow> (Some (OtherError ''remote has no URL''), w')
      | u # us \<Rightarrow>
          (case transport_fault env u auth w of
             Some m \<Rightarrow> (Some (OtherError m), w')
           | None \<Rightarrow>
               (case upstream w u of
                  None \<Rightarrow> (Some (OtherError ''repository not found''), w')
                | Some theirs \<Rightarrow>
                    if refSpecs \<noteq> [mirror_refspec]
                    then (Some (OtherError ''refspec not supported''), w')
                    else
                      (case disk w (remote_s rem) of
                         None \<Rightarrow> (Some (OtherError ''storage not found''), w')
                       | Some st \<Rightarrow>
                           if up_to_date (under_refs (refs st)) theirs
                           then (Some NoErrAlreadyUpToDate, w')
                           else (None,
                                 w'\<lparr>upstream := (upstream w)(u \<mapsto>
                                       force_update (under_refs (refs st)) theirs)\<rparr>)))))"

section \<open>The program\<close>

definition repositoryShadowPath :: "string \<Rightarrow> string \<Rightarrow> string" where
  "repositoryShadowPath sourceRepoUrl tmpPath =
     filepath_Join [tmpPath, hex_EncodeToString (sha256_Sum (string_bytes sourceRepoUrl))]"

text \<open>
  \<^verbatim>\<open>repositoryShadowCreateDir\<close>. Writing to a hash never fails, so its error branch
  is not taken; the permission argument is the source's literal \<^verbatim>\<open>644\<close>, a decimal
  numeral in Go.
\<close>

definition repositoryShadowCreateDir ::
  "env \<Rightarrow> string \<Rightarrow> string \<Rightarrow> world \<Rightarrow> (string \<times> error option) \<times> world" where
  "repositoryShadowCreateDir env sourceRepoUrl tmpPath w =
     (let sourceSha256sum = hex_EncodeToString (sha256_Sum (string_bytes sourceRepoUrl));
          sourceClonePath = filepath_Join [tmpPath, sourceSha256sum] in
      case os_MkdirAll env sourceClonePath 644 w of
        (Some err, w1) \<Rightarrow> (([], Some err), w1)
      | (None, w1) \<Rightarrow> ((sourceClonePath, None), w1))"

definition repositorySshKeyRead ::
  "env \<Rightarrow> string \<Rightarrow> string \<Rightarrow> bool \<Rightarrow> world \<Rightarrow> (PublicKeys option \<times> error option) \<times> world" where
  "repositorySshKeyRead env sourceRepoPemFileName sourceRepoPemFilePassword
       sourceRepoSkipHostKeyValidation w =
     (case ssh_NewPublicKeysFromFile env ''git'' sourceRepoPemFileName sourceRepoPemFilePassword w of
        ((Some sourceRepoPublicKey, None), w1) \<Rightarrow>
          if sourceRepoSkipHostKeyValidation
          then ((Some (sourceRepoPublicKey\<lparr>HostKeyCallback := InsecureIgnoreHostKey\<rparr>), None), w1)
          else ((Some sourceRepoPublicKey, None), w1)
      | ((k, err), w1) \<Rightarrow> ((None, err), w1))"

definition repositoryShadowCheckInit ::
  "env \<Rightarrow> string \<Rightarrow> world \<Rightarrow> (repository option \<times> error option) \<times> world" where
  "repositoryShadowCheckInit env sourceClonePath w =
     (case git_PlainOpen env sourceClonePath w of
        ((r, err), w1) \<Rightarrow>
          if err \<noteq> None \<and> err \<noteq> Some ErrRepositoryNotExists then ((None, err), w1)
          else if err \<noteq> None \<and> err = Some ErrRepositoryNotExists then ((None, None), w1)
          else ((r, None), w1))"

definition repositoryShadowInit ::
  "env \<Rightarrow> string \<Rightarrow> string \<Rightarrow> PublicKeys \<Rightarrow> world \<Rightarrow> (repository option \<times> error option) \<times> world" where
  "repositoryShadowInit env sourceClonePath sourceRepoUrl sourceRepoPublicKey w =
     (case git_PlainInit env sourceClonePath True w of
        ((Some r, None), w1) \<Rightarrow>
          (case Repository_CreateRemote env r
                  \<lparr>Name = DefaultRemoteName, URLs = [sourceRepoUrl], Fetch = [mirror_refspec]\<rparr> w1 of
             ((Some remoteSource, None), w2) \<Rightarrow>
               (case Remote_FetchContext env remoteSource sourceRepoPublicKey w2 of
                  (err, w3) \<Rightarrow>
                    if err \<noteq> None \<and> err \<noteq> Some NoErrAlreadyUpToDate then ((None, err), w3)
                    else ((Some r, None), w3))
           | ((x, err), w2) \<Rightarrow> ((None, err), w2))
      | ((x, err), w1) \<Rightarrow> ((None, err), w1))"

text \<open>
  \<^verbatim>\<open>repositoryShadowUpdate\<close>: its repository parameter is shadowed at once by the
  result of opening the path again, so the model does not take it.
\<close>

definition repositoryShadowUpdate ::
  "env \<Rightarrow> string \<Rightarrow> PublicKeys \<Rightarrow> world \<Rightarrow> (repository option \<times> error option) \<times> world" where
  "repositoryShadowUpdate env sourceClonePath sourceRepoPublicKey w =
     (case git_PlainOpen env sourceClonePath w of
        ((Some r, None), w1) \<Rightarrow>
          (case Repository_FetchContext env r DefaultRemoteName sourceRepoPublicKey w1 of
             (err, w2) \<Rightarrow>
               if err \<noteq> None \<and> err \<noteq> Some NoErrAlreadyUpToDate then ((None, err), w2)
               else ((Some r, None), w2))
      | ((x, err), w1) \<Rightarrow> ((None, err), w1))"

text \<open>
  \<^verbatim>\<open>repositoryShadowPushToNewOrigin\<close>. The repository and the keys arrive as
  pointers: \<^verbatim>\<open>r.Remote\<close> on a nil repository panics, and so does
  \<^verbatim>\<open>remoteDestination.Config()\<close> on the nil remote that comes with
  \<^verbatim>\<open>ErrRemoteNotFound\<close>, which the guard lets through. The assignment to
  \<^verbatim>\<open>Config().URLs\<close> changes the remote's own configuration value; the program makes no
  call that stores a configuration.
\<close>

definition repositoryShadowPushToNewOrigin ::
  "env \<Rightarrow> repository option \<Rightarrow> string \<Rightarrow> PublicKeys \<Rightarrow> world \<Rightarrow> error option go \<times> world" where
  "repositoryShadowPushToNewOrigin env r destinationRepoUrl destinationRepoPublicKey w =
     (case r of
        None \<Rightarrow> (Panic, w)
      | Some repo \<Rightarrow>
          (case Repository_Remote env repo DefaultRemoteName w of
             ((remoteDestination, err), w1) \<Rightarrow>
               if err \<noteq> None \<and> err \<noteq> Some ErrRemoteNotFound then (Val err, w1)
               else
                 (case remoteDestination of
                    None \<Rightarrow> (Panic, w1)
                  | Some rd \<Rightarrow>
                      (case Remote_PushContext env
                              (Remote ((remote_c rd)\<lparr>URLs := [destinationRepoUrl]\<rparr>) (remote_s rd))
                              destinationRepoPublicKey [mirror_refspec] w1 of
                         (err, w2) \<Rightarrow>
                           if err \<noteq> None \<and> err \<noteq> Some NoErrAlreadyUpToDate then (Val err, w2)
                           else (Val None, w2)))))"

text \<open>
  Lines 212 to 221 of \<^verbatim>\<open>doRepositoriesSync\<close>: open the shadow, then initialise or
  update it. The first component tells whether line 213 returned (\<open>True\<close>) with the
  error of the open; otherwise the pair is the \<^verbatim>\<open>r, err\<close> assigned at line 218 or 220.
\<close>

definition shadowEnsureUpToDate ::
  "env \<Rightarrow> string \<Rightarrow> string \<Rightarrow> PublicKeys \<Rightarrow> world
     \<Rightarrow> (bool \<times> repository option \<times> error option) \<times> world" where
  "shadowEnsureUpToDate env sourceClonePath sourceRepoUrl sourceRepoPublicKeys w =
     (case repositoryShadowCheckInit env sourceClonePath w of
        ((r, err), w1) \<Rightarrow>
          if err \<noteq> None then ((True, None, err), w1)
          else if r = None
          then (case repositoryShadowInit env sourceClonePath sourceRepoUrl sourceRepoPublicKeys w1 of
                  ((r', err'), w2) \<Rightarrow> ((False, r', err'), w2))
          else (case repositoryShadowUpdate env sourceClonePath sourceRepoPublicKeys w1 of
                  ((r', err'), w2) \<Rightarrow> ((False, r', err'), w2)))"

text \<open>
  \<^verbatim>\<open>doRepositoriesSync\<close>. Both lookups come first; the source descriptor is
  dereferenced at line 198 and the destination descriptor at line 224. The \<^verbatim>\<open>err\<close>
  assigned at line 218 or 220 is overwritten at line 223 without having been read.
  The keys returned with a nil error are not nil.
\<close>

definition doRepositoriesSync ::
  "env \<Rightarrow> RepositoriesSyncConfiguration \<Rightarrow> RepositorySyncOption \<Rightarrow> world \<Rightarrow> error option go \<times> world" where
  "doRepositoriesSync env rsc syncOption w =
     (case getRepositoryAccess rsc (SourceName syncOption) of
        Panic \<Rightarrow> (Panic, w)
      | Val syncOptionSource \<Rightarrow>
     (case getRepositoryAccess rsc (DestinationName syncOption) of
        Panic \<Rightarrow> (Panic, w)
      | Val syncOptionDestination \<Rightarrow>
     (case syncOptionSource of
        None \<Rightarrow> (Panic, w)
      | Some src \<Rightarrow>
     (case repositoryShadowCreateDir env (RepoUrl src) (ShadowsLocationBasePath rsc) w of
        ((sourceClonePath, Some err), w1) \<Rightarrow> (Val (Some err), w1)
      | ((sourceClonePath, None), w1) \<Rightarrow>
     (case repositorySshKeyRead env (RepoPemFileName src) (RepoPemFilePassword src)
             (RepoSkipHostKeyValidation src) w1 of
        ((Some sourceRepoPublicKeys, None), w2) \<Rightarrow>
          (case shadowEnsureUpToDate env sourceClonePath (RepoUrl src) sourceRepoPublicKeys w2 of
             ((True, r, err), w3) \<Rightarrow> (Val err, w3)
           | ((False, r, err), w3) \<Rightarrow>
               (case syncOptionDestination of
                  None \<Rightarrow> (Panic, w3)
                | Some dst \<Rightarrow>
                    (case repositorySshKeyRead env (RepoPemFileName dst) (RepoPemFilePassword dst)
                            (RepoSkipHostKeyValidation dst) w3 of
                       ((Some destinationRepoPublicKeys, None), w4) \<Rightarrow>
                         (case repositoryShadowPushToNewOrigin env r (RepoUrl dst)
                                 destinationRepoPublicKeys w4 of
                            (Panic, w5) \<Rightarrow> (Panic, w5)
                          | (Val err', w5) \<Rightarrow> (Val err', w5))
                     | ((k, err'), w4) \<Rightarrow> (Val err', w4))))
      | ((k, err), w2) \<Rightarrow> (Val err, w2))))))"

section \<open>Concrete configurations and worlds\<close>

text \<open>
  A configuration with two repositories and the pair that mirrors the first to the
  second; an environment in which nothing fails and every key file loads.
\<close>

definition repo_a :: RepositoryAccess where
  "repo_a = \<lparr>RepoName = ''a'', RepoUrl = ''ssh://git@src.example/a.git'',
             RepoPemFileName = ''a.pem'', RepoPemFilePassword = ''pa'',
             RepoSkipHostKeyValidation = False\<rparr>"

definition repo_b :: RepositoryAccess where
  "repo_b = \<lparr>RepoName = ''b'', RepoUrl = ''ssh://git@dst.example/b.git'',
             RepoPemFileName = ''b.pem'', RepoPemFilePassword = ''pb'',
             RepoSkipHostKeyValidation = True\<rparr>"

definition pair_ab :: RepositorySyncOption where
  "pair_ab = \<lparr>SourceName = ''a'', DestinationName = ''b''\<rparr>"

definition rsc_ab :: RepositoriesSyncConfiguration where
  "rsc_ab = \<lparr>ShadowsLocationBasePath = ''/var/shadows'',
             Repositories = [Some repo_a, Some repo_b],
             SyncOptions = [Some pair_ab]\<rparr>"

definition env_ok :: env where
  "env_ok = \<lparr>mkdir_fault = (\<lambda>p w. None),
             key_load = (\<lambda>f pw w. Inr f),
             open_fault = (\<lambda>p w. None),
             init_fault = (\<lambda>p w. None),
             config_fault = (\<lambda>p w. None),
             transport_fault = (\<lambda>u k w. None)\<rparr>"

definition keys_a :: PublicKeys where
  "keys_a = \<lparr>User = ''git'', Signer = ''a.pem'', HostKeyCallback = KnownHosts\<rparr>"

definition keys_b :: PublicKeys where
  "keys_b = \<lparr>User = ''git'', Signer = ''b.pem'', HostKeyCallback = InsecureIgnoreHostKey\<rparr>"

definition shadow_a :: string where
  "shadow_a = repositoryShadowPath (RepoUrl repo_a) ''/var/shadows''"

definition origin_a :: RemoteConfig where
  "origin_a = \<lparr>Name = ''origin'', URLs = [''ssh://git@src.example/a.git''],
               Fetch = [''+refs/*:refs/*'']\<rparr>"

text \<open>No shadow yet; the source has one branch, the destination is empty.\<close>

definition world_fresh :: world where
  "world_fresh =
     \<lparr>disk = (\<lambda>p. None),
      upstream = [''ssh://git@src.example/a.git'' \<mapsto> [(''refs/heads/main'', ''c1'')],
                  ''ssh://git@dst.example/b.git'' \<mapsto> []],
      trace = []\<rparr>"

text \<open>No shadow yet; the source can be reached and has no reference.\<close>

definition world_fresh_empty :: world where
  "world_fresh_empty =
     \<lparr>disk = (\<lambda>p. None),
      upstream = [''ssh://git@src.example/a.git'' \<mapsto> [],
                  ''ssh://git@dst.example/b.git'' \<mapsto> []],
      trace = []\<rparr>"

text \<open>No shadow yet, and the source cannot be reached.\<close>

definition world_fresh_down :: world where
  "world_fresh_down =
     \<lparr>disk = (\<lambda>p. None),
      upstream = [''ssh://git@dst.example/b.git'' \<mapsto> []],
      trace = []\<rparr>"

text \<open>The shadow of an earlier sync is on disk, and the source cannot be reached.\<close>

definition world_synced_down :: world where
  "world_synced_down =
     \<lparr>disk = [shadow_a \<mapsto> \<lparr>remotes = [(''origin'', origin_a)],
                                refs = [(''refs/heads/main'', ''c1'')]\<rparr>],
      upstream = [''ssh://git@dst.example/b.git'' \<mapsto> [(''refs/heads/main'', ''c1'')]],
      trace = []\<rparr>"

text \<open>The shadow of an earlier sync is on disk, and the source has moved on.\<close>

definition world_synced :: world where
  "world_synced =
     \<lparr>disk = [shadow_a \<mapsto> \<lparr>remotes = [(''origin'', origin_a)],
                                refs = [(''refs/heads/main'', ''c1'')]\<rparr>],
      upstream = [''ssh://git@src.example/a.git'' \<mapsto> [(''refs/heads/main'', ''c2'')],
                  ''ssh://git@dst.example/b.git'' \<mapsto> [(''refs/heads/main'', ''c1'')]],
      trace = []\<rparr>"

text \<open>Octal notation, most significant digit first (Go writes \<^verbatim>\<open>0644\<close>).\<close>

definition octal :: "nat list \<Rightarrow> 32 word" where
  "octal ds = foldl (\<lambda>acc d. 8 * acc + word_of_nat d) 0 ds"

text \<open>An environment in which no repository can be opened.\<close>

definition env_open_denied :: env where
  "env_open_denied = env_ok\<lparr>open_fault := (\<lambda>p w. Some ''permission denied'')\<rparr>"

text \<open>The world the sync of the pair leaves when it starts without a shadow.\<close>

definition world_after_sync :: world where
  "world_after_sync = snd (doRepositoriesSync env_ok rsc_ab pair_ab world_fresh)"

text \<open>No file-system, configuration or transport operation fails.\<close>

definition fault_free :: "env \<Rightarrow> bool" where
  "fault_free env \<longleftrightarrow>
     (\<forall>p w. open_fault env p w = None) \<and> (\<forall>p w. init_fault env p w = None)
     \<and> (\<forall>p w. config_fault env p w = None) \<and> (\<forall>u k w. transport_fault env u k w = None)"

text \<open>The repository at the URL can be reached and advertises a reference under \<^verbatim>\<open>refs/\<close>.\<close>

definition has_refs :: "world \<Rightarrow> string \<Rightarrow> bool" where
  "has_refs w u = (case upstream w u of None \<Rightarrow> False | Some adv \<Rightarrow> under_refs adv \<noteq> [])"

text \<open>
  The states of a shadow whose source has references: absent; or present as the
  initialisation leaves it, with the catch-all refspec on its default remote.
\<close>

definition shadow_state_ok :: "world \<Rightarrow> string \<Rightarrow> string \<Rightarrow> bool" where
  "shadow_state_ok w p u =
     (case disk w p of
        None \<Rightarrow> has_refs w u
      | Some st \<Rightarrow>
          (case map_of (remotes st) DefaultRemoteName of
             None \<Rightarrow> False
           | Some cfg \<Rightarrow>
               Fetch cfg = [mirror_refspec]
               \<and> (case URLs cfg of [] \<Rightarrow> False | x # xs \<Rightarrow> has_refs w x)))"

text \<open>The URL lists of the fetches in a trace, oldest first.\<close>

definition fetch_urls :: "event list \<Rightarrow> string list list" where
  "fetch_urls evs = concat (map (\<lambda>ev. case ev of EvFetch s urls specs a \<Rightarrow> [urls] | _ \<Rightarrow> []) evs)"


section \<open>Properties\<close>

lemmas lib_defs = os_MkdirAll_def ssh_NewPublicKeysFromFile_def git_PlainOpen_def git_PlainInit_def
  Repository_CreateRemote_def Repository_Remote_def Remote_FetchContext_def Repository_FetchContext_def
  Remote_PushContext_def record_event_def

lemmas prog_defs = repositoryShadowCreateDir_def repositorySshKeyRead_def repositoryShadowCheckInit_def
  repositoryShadowInit_def repositoryShadowUpdate_def repositoryShadowPushToNewOrigin_def
  shadowEnsureUpToDate_def doRepositoriesSync_def getRepositoryAccess_def

lemmas fix_defs = repo_a_def repo_b_def pair_ab_def rsc_ab_def env_ok_def world_fresh_def
  world_fresh_empty_def world_fresh_down_def world_synced_down_def world_synced_def keys_a_def keys_b_def origin_a_def shadow_a_def
  repositoryShadowPath_def DefaultRemoteName_def mirror_refspec_def under_refs_def
  force_update_def up_to_date_def

subsection \<open>The digest\<close>

text \<open>
  The digest has 32 bytes and its encoding 64 characters, whatever the URL; the model
  computes the digest of FIPS 180-4 for the message \<^verbatim>\<open>abc\<close>.
\<close>

lemma length_sha256_Sum: "length (sha256_Sum m) = 32"
  by (simp add: sha256_Sum_def be_bytes_def split: prod.splits)

lemma length_hex_EncodeToString: "length (hex_EncodeToString bs) = 2 * length bs"
  by (induction bs) (simp_all add: hex_EncodeToString_def)

lemma sha256_abc:
  "hex_EncodeToString (sha256_Sum (string_bytes ''abc''))
     = ''ba7816bf8f01cfea414140de5dae2223b00361a396177a9cb410ff61f20015ad''"
  by code_simp

subsection \<open>What each step reads and writes\<close>

lemma force_update_idem: "force_update new (force_update new old) = force_update new old"
proof -
  have "filter (\<lambda>(n, h). map_of new n = None) new = []"
    by (auto simp: filter_empty_conv map_of_eq_None_iff intro: rev_image_eqI)
  then show ?thesis by (simp add: force_update_def)
qed

lemma key_read_frame:
  assumes "repositorySshKeyRead env f pw s w = (res, w')"
  shows "disk w' = disk w \<and> upstream w' = upstream w
         \<and> trace w' = trace w @ [EvNewPublicKeysFromFile ''git'' f pw]"
  using assms
  by (auto simp: repositorySshKeyRead_def ssh_NewPublicKeysFromFile_def record_event_def
      split: sum.splits if_splits)

lemma create_dir_frame:
  assumes "repositoryShadowCreateDir env u b w = (res, w')"
  shows "disk w' = disk w \<and> upstream w' = upstream w
         \<and> trace w' = trace w @ [EvMkdirAll (repositoryShadowPath u b) 644]"
  using assms
  by (auto simp: repositoryShadowCreateDir_def repositoryShadowPath_def os_MkdirAll_def
      record_event_def Let_def split: option.splits)

lemma create_dir_path:
  assumes "repositoryShadowCreateDir env u b w = ((p, None), w')"
  shows "p = repositoryShadowPath u b"
  using assms
  by (auto simp: repositoryShadowCreateDir_def repositoryShadowPath_def os_MkdirAll_def
      Let_def split: option.splits)

lemma remote_lookup_frame:
  assumes "Repository_Remote env r name w = (res, w')"
  shows "w' = w"
  using assms
  by (auto simp: Repository_Remote_def split: option.splits)

lemma remote_lookup_found:
  assumes "Repository_Remote env r name w = ((Some rd, e), w')"
  shows "e = None \<and> remote_s rd = Storer r
         \<and> (\<exists>st. disk w (Storer r) = Some st \<and> map_of (remotes st) name = Some (remote_c rd))"
  using assms
  by (auto simp: Repository_Remote_def split: option.splits)

lemma push_frame:
  assumes "repositoryShadowPushToNewOrigin env r d k w = (res, w')"
  shows "disk w' = disk w"
  using assms
  by (auto simp: repositoryShadowPushToNewOrigin_def Remote_PushContext_def Repository_Remote_def
      record_event_def Let_def split: option.splits if_splits list.splits prod.splits)

lemma push_done:
  assumes "repositoryShadowPushToNewOrigin env r d k w = (Val None, w')"
  shows "\<exists>rp. r = Some rp \<and> trace w' = trace w @ [EvPush (Storer rp) [d] [mirror_refspec] k]"
  using assms
  by (auto simp: repositoryShadowPushToNewOrigin_def Remote_PushContext_def Repository_Remote_def
      record_event_def Let_def split: option.splits if_splits list.splits prod.splits)

lemma fetch_urls_append [simp]: "fetch_urls (xs @ ys) = fetch_urls xs @ fetch_urls ys"
  by (simp add: fetch_urls_def)

lemma fetch_urls_simps [simp]:
  "fetch_urls [] = []"
  "fetch_urls (EvFetch s urls specs a # evs) = urls # fetch_urls evs"
  "fetch_urls (EvMkdirAll p m # evs) = fetch_urls evs"
  "fetch_urls (EvNewPublicKeysFromFile x y z # evs) = fetch_urls evs"
  "fetch_urls (EvPlainOpen p # evs) = fetch_urls evs"
  "fetch_urls (EvPlainInit p b # evs) = fetch_urls evs"
  "fetch_urls (EvCreateRemote p c # evs) = fetch_urls evs"
  "fetch_urls (EvPush s urls specs a # evs) = fetch_urls evs"
  by (simp_all add: fetch_urls_def)

text \<open>A fetch changes the references of the remote's own storage at most.\<close>

lemma fetch_frame:
  assumes "Remote_FetchContext env rem k w = (e, w')"
  shows "upstream w' = upstream w
         \<and> trace w' = trace w @ [EvFetch (remote_s rem) (URLs (remote_c rem)) (Fetch (remote_c rem)) k]
         \<and> (\<forall>q. q \<noteq> remote_s rem \<longrightarrow> disk w' q = disk w q)
         \<and> (\<forall>st. disk w (remote_s rem) = Some st \<longrightarrow>
               (\<exists>st'. disk w' (remote_s rem) = Some st' \<and> remotes st' = remotes st))
         \<and> (disk w (remote_s rem) = None \<longrightarrow> disk w' (remote_s rem) = None)"
  using assms
  by (auto simp: Remote_FetchContext_def record_event_def Let_def
      split: option.splits if_splits list.splits)

lemma init_done:
  assumes "repositoryShadowInit env p u k w = ((Some r, e), w')"
  shows "e = None \<and> r = Repository p \<and> disk w p = None \<and> upstream w' = upstream w
         \<and> (\<forall>q. q \<noteq> p \<longrightarrow> disk w' q = disk w q)
         \<and> (\<exists>st'. disk w' p = Some st'
              \<and> remotes st' = [(DefaultRemoteName,
                    \<lparr>Name = DefaultRemoteName, URLs = [u], Fetch = [mirror_refspec]\<rparr>)])"
  using assms
  by (auto simp: repositoryShadowInit_def git_PlainInit_def Repository_CreateRemote_def
      Remote_FetchContext_def record_event_def Let_def DefaultRemoteName_def
      split: option.splits if_splits list.splits prod.splits)

lemma update_done:
  assumes "repositoryShadowUpdate env p k w = ((Some r, e), w')"
  shows "e = None \<and> r = Repository p \<and> upstream w' = upstream w
         \<and> (\<forall>q. q \<noteq> p \<longrightarrow> disk w' q = disk w q)
         \<and> (\<exists>st st'. disk w p = Some st \<and> disk w' p = Some st' \<and> remotes st' = remotes st
              \<and> map_of (remotes st) DefaultRemoteName \<noteq> None)"
  using assms
  by (auto simp: repositoryShadowUpdate_def git_PlainOpen_def Repository_FetchContext_def
      Repository_Remote_def Remote_FetchContext_def record_event_def Let_def
      split: option.splits if_splits list.splits prod.splits)

text \<open>On a shadow that exists, whatever the outcome.\<close>

lemma ensure_existing:
  assumes "shadowEnsureUpToDate env p u k w = (res, w')" and "disk w p = Some st"
  shows "upstream w' = upstream w
         \<and> (\<forall>q. q \<noteq> p \<longrightarrow> disk w' q = disk w q)
         \<and> (\<exists>st'. disk w' p = Some st' \<and> remotes st' = remotes st)
         \<and> (\<forall>urls \<in> set (fetch_urls (drop (length (trace w)) (trace w'))).
               map_option URLs (map_of (remotes st) DefaultRemoteName) = Some urls)"
  using assms
  by (auto simp: shadowEnsureUpToDate_def repositoryShadowCheckInit_def repositoryShadowUpdate_def
      git_PlainOpen_def Repository_FetchContext_def
      Repository_Remote_def Remote_FetchContext_def record_event_def Let_def
      split: option.splits if_splits list.splits prod.splits)

text \<open>How a run of the sync that got past the source lookup went.\<close>

lemma key_read_cases:
  assumes "repositorySshKeyRead env f pw s w = ((k, e), w')"
  shows "(\<exists>kk. k = Some kk \<and> e = None) \<or> (k = None \<and> (\<exists>m. e = Some (OtherError m)))"
  using assms
  by (auto simp: repositorySshKeyRead_def ssh_NewPublicKeysFromFile_def
      split: sum.splits if_splits)

lemma ensure_fatal:
  assumes "shadowEnsureUpToDate env p u k w = ((True, r, err), w')"
  shows "r = None \<and> (\<exists>m. err = Some (OtherError m) \<and> open_fault env p w = Some m)
         \<and> w' = record_event (EvPlainOpen p) w"
  using assms
  by (auto simp: shadowEnsureUpToDate_def repositoryShadowCheckInit_def git_PlainOpen_def
      split: option.splits if_splits prod.splits)

lemma sync_stages:
  assumes run: "doRepositoriesSync env rsc so w = (res, w')"
    and src: "getRepositoryAccess rsc (SourceName so) = Val (Some src)"
  obtains
    (dst_lookup_panic) "w' = w" "res = Panic"
  | (mkdir_failed) x err where
      "repositoryShadowCreateDir env (RepoUrl src) (ShadowsLocationBasePath rsc) w = ((x, Some err), w')"
      "res = Val (Some err)"
  | (src_key_failed) p w1 kr where
      "repositoryShadowCreateDir env (RepoUrl src) (ShadowsLocationBasePath rsc) w = ((p, None), w1)"
      "repositorySshKeyRead env (RepoPemFileName src) (RepoPemFilePassword src)
         (RepoSkipHostKeyValidation src) w1 = (kr, w')"
      "res = Val (snd kr)" "\<forall>k. kr \<noteq> (Some k, None)"
  | (open_failed) p w1 k w2 r err where
      "repositoryShadowCreateDir env (RepoUrl src) (ShadowsLocationBasePath rsc) w = ((p, None), w1)"
      "repositorySshKeyRead env (RepoPemFileName src) (RepoPemFilePassword src)
         (RepoSkipHostKeyValidation src) w1 = ((Some k, None), w2)"
      "shadowEnsureUpToDate env p (RepoUrl src) k w2 = ((True, r, err), w')"
      "res = Val err"
  | (dst_nil) p w1 k w2 r err where
      "repositoryShadowCreateDir env (RepoUrl src) (ShadowsLocationBasePath rsc) w = ((p, None), w1)"
      "repositorySshKeyRead env (RepoPemFileName src) (RepoPemFilePassword src)
         (RepoSkipHostKeyValidation src) w1 = ((Some k, None), w2)"
      "shadowEnsureUpToDate env p (RepoUrl src) k w2 = ((False, r, err), w')"
      "res = Panic"
  | (dst_key_failed) p w1 k w2 r err w3 dst kr where
      "repositoryShadowCreateDir env (RepoUrl src) (ShadowsLocationBasePath rsc) w = ((p, None), w1)"
      "repositorySshKeyRead env (RepoPemFileName src) (RepoPemFilePassword src)
         (RepoSkipHostKeyValidation src) w1 = ((Some k, None), w2)"
      "shadowEnsureUpToDate env p (RepoUrl src) k w2 = ((False, r, err), w3)"
      "getRepositoryAccess rsc (DestinationName so) = Val (Some dst)"
      "repositorySshKeyRead env (RepoPemFileName dst) (RepoPemFilePassword dst)
         (RepoSkipHostKeyValidation dst) w3 = (kr, w')"
      "res = Val (snd kr)" "\<forall>kd. kr \<noteq> (Some kd, None)"
  | (pushed) p w1 k w2 r err w3 dst kd w4 where
      "repositoryShadowCreateDir env (RepoUrl src) (ShadowsLocationBasePath rsc) w = ((p, None), w1)"
      "repositorySshKeyRead env (RepoPemFileName src) (RepoPemFilePassword src)
         (RepoSkipHostKeyValidation src) w1 = ((Some k, None), w2)"
      "shadowEnsureUpToDate env p (RepoUrl src) k w2 = ((False, r, err), w3)"
      "getRepositoryAccess rsc (DestinationName so) = Val (Some dst)"
      "repositorySshKeyRead env (RepoPemFileName dst) (RepoPemFilePassword dst)
         (RepoSkipHostKeyValidation dst) w3 = ((Some kd, None), w4)"
      "repositoryShadowPushToNewOrigin env r (RepoUrl dst) kd w4 = (res, w')"
  using run src
  unfolding doRepositoriesSync_def
  by (auto split: go.splits option.splits prod.splits bool.splits)

lemma ensure_trace_existing:
  assumes "shadowEnsureUpToDate env p u k w = (res, w')" and "disk w p = Some st"
  shows "\<exists>evs. trace w' = trace w @ evs
           \<and> (\<forall>urls \<in> set (fetch_urls evs).
                 map_option URLs (map_of (remotes st) DefaultRemoteName) = Some urls)"
  using assms
  by (auto simp: shadowEnsureUpToDate_def repositoryShadowCheckInit_def repositoryShadowUpdate_def
      git_PlainOpen_def Repository_FetchContext_def
      Repository_Remote_def Remote_FetchContext_def record_event_def Let_def
      split: option.splits if_splits list.splits prod.splits)

lemma push_trace:
  assumes "repositoryShadowPushToNewOrigin env r d k w = (res, w')"
  shows "\<exists>evs. trace w' = trace w @ evs \<and> fetch_urls evs = []"
  using assms
  by (auto simp: repositoryShadowPushToNewOrigin_def Remote_PushContext_def Repository_Remote_def
      record_event_def Let_def split: option.splits if_splits list.splits prod.splits)

lemma ensure_done:
  assumes "shadowEnsureUpToDate env p u k w = ((False, Some r, e), w')"
  shows "r = Repository p \<and> upstream w' = upstream w
         \<and> (\<exists>st'. disk w' p = Some st'
              \<and> remotes st' = (case disk w p of
                    None \<Rightarrow> [(DefaultRemoteName,
                               \<lparr>Name = DefaultRemoteName, URLs = [u], Fetch = [mirror_refspec]\<rparr>)]
                  | Some st \<Rightarrow> remotes st))"
proof -
  obtain r0 e0 w1 where ci: "repositoryShadowCheckInit env p w = ((r0, e0), w1)"
    by (metis prod.exhaust)
  have w1: "disk w1 = disk w" "upstream w1 = upstream w"
    using ci by (auto simp: repositoryShadowCheckInit_def git_PlainOpen_def record_event_def
        split: option.splits if_splits)
  have r0: "e0 = None" "(r0 = None) = (disk w p = None)"
    using ci assms by (auto simp: shadowEnsureUpToDate_def repositoryShadowCheckInit_def
        git_PlainOpen_def split: option.splits if_splits prod.splits)
  show ?thesis
  proof (cases "disk w p")
    case None
    with r0 ci assms have "repositoryShadowInit env p u k w1 = ((Some r, e), w')"
      by (auto simp: shadowEnsureUpToDate_def split: prod.splits)
    from init_done [OF this] show ?thesis using None w1 by auto
  next
    case (Some st)
    with r0 ci assms have "repositoryShadowUpdate env p k w1 = ((Some r, e), w')"
      by (auto simp: shadowEnsureUpToDate_def split: prod.splits)
    from update_done [OF this] show ?thesis using Some w1 by auto
  qed
qed


text \<open>The shadow step when nothing hinders it, and at a fixed point of the fetch.\<close>

lemma has_refs_upstream:
  assumes "has_refs w u"
  shows "\<exists>adv. upstream w u = Some adv \<and> adv \<noteq> []"
proof (cases "upstream w u")
  case None
  with assms show ?thesis by (simp add: has_refs_def)
next
  case (Some adv)
  with assms have "under_refs adv \<noteq> []" by (simp add: has_refs_def)
  then have "adv \<noteq> []" by (auto simp: under_refs_def)
  with Some show ?thesis by simp
qed

lemma fetch_unhindered:
  assumes "transport_fault env x k w = None" and "upstream w x = Some adv" and "adv \<noteq> []"
    and "URLs (remote_c rem) = x # xs" and "Fetch (remote_c rem) = [mirror_refspec]"
    and "disk w (remote_s rem) = Some st"
  shows "\<exists>e. (e = None \<or> e = Some NoErrAlreadyUpToDate)
           \<and> Remote_FetchContext env rem k w
               = (e, (record_event (EvFetch (remote_s rem) (URLs (remote_c rem))
                                      (Fetch (remote_c rem)) k) w)
                       \<lparr>disk := (disk w)(remote_s rem \<mapsto>
                           st\<lparr>refs := (if up_to_date (under_refs adv) (refs st) then refs st
                                       else force_update (under_refs adv) (refs st))\<rparr>)\<rparr>)"
  using assms
  by (auto simp: Remote_FetchContext_def Let_def record_event_def fun_upd_idem)

lemma update_unhindered:
  assumes ff: "fault_free env" and st: "disk w p = Some st"
    and cfg: "map_of (remotes st) DefaultRemoteName = Some cfg"
    and spec: "Fetch cfg = [mirror_refspec]" and url: "URLs cfg = x # xs"
    and up: "upstream w x = Some adv" and ne: "adv \<noteq> []"
  shows "\<exists>w'. shadowEnsureUpToDate env p u k w = ((False, Some (Repository p), None), w')
           \<and> upstream w' = upstream w
           \<and> disk w' = (disk w)(p \<mapsto>
                 st\<lparr>refs := (if up_to_date (under_refs adv) (refs st) then refs st
                             else force_update (under_refs adv) (refs st))\<rparr>)"
  using assms
  by (auto simp: shadowEnsureUpToDate_def repositoryShadowCheckInit_def repositoryShadowUpdate_def
      git_PlainOpen_def Repository_FetchContext_def Repository_Remote_def fault_free_def
      Remote_FetchContext_def Let_def record_event_def fun_upd_idem)

lemma init_unhindered:
  assumes ff: "fault_free env" and st: "disk w p = None" and up: "upstream w u = Some adv"
    and ne: "adv \<noteq> []"
  shows "\<exists>w'. shadowEnsureUpToDate env p u k w = ((False, Some (Repository p), None), w')
           \<and> upstream w' = upstream w
           \<and> disk w' = (disk w)(p \<mapsto>
                 \<lparr>remotes = [(DefaultRemoteName,
                      \<lparr>Name = DefaultRemoteName, URLs = [u], Fetch = [mirror_refspec]\<rparr>)],
                  refs = (if up_to_date (under_refs adv) [] then []
                          else force_update (under_refs adv) [])\<rparr>)"
  using assms
  by (auto simp: shadowEnsureUpToDate_def repositoryShadowCheckInit_def repositoryShadowInit_def
      git_PlainOpen_def git_PlainInit_def Repository_CreateRemote_def fault_free_def
      Remote_FetchContext_def Let_def record_event_def DefaultRemoteName_def)

lemma ensure_success_fixpoint:
  assumes "shadowEnsureUpToDate env p u k w = ((False, Some r, e), w1)"
  shows "r = Repository p \<and> e = None \<and>
         (\<exists>st1 cfg x xs adv. disk w1 p = Some st1
            \<and> map_of (remotes st1) DefaultRemoteName = Some cfg
            \<and> Fetch cfg = [mirror_refspec] \<and> URLs cfg = x # xs \<and> upstream w1 x = Some adv
            \<and> adv \<noteq> []
            \<and> (up_to_date (under_refs adv) (refs st1)
                 \<or> force_update (under_refs adv) (refs st1) = refs st1))"
  using assms
  by (auto simp: shadowEnsureUpToDate_def repositoryShadowCheckInit_def repositoryShadowInit_def
      repositoryShadowUpdate_def git_PlainOpen_def git_PlainInit_def Repository_CreateRemote_def
      Repository_FetchContext_def Repository_Remote_def Remote_FetchContext_def Let_def
      record_event_def DefaultRemoteName_def force_update_idem
      split: option.splits if_splits list.splits prod.splits)

lemma ensure_at_fixpoint:
  assumes "disk w1 p = Some st1" and "map_of (remotes st1) DefaultRemoteName = Some cfg"
    and "Fetch cfg = [mirror_refspec]" and "URLs cfg = x # xs" and "upstream w1 x = Some adv"
    and "adv \<noteq> []"
    and "up_to_date (under_refs adv) (refs st1)
         \<or> force_update (under_refs adv) (refs st1) = refs st1"
    and "shadowEnsureUpToDate env p u k w1 = (res2, w2)"
  shows "disk w2 = disk w1 \<and> (fault_free env \<longrightarrow> res2 = (False, Some (Repository p), None))"
  using assms
  by (auto simp: shadowEnsureUpToDate_def repositoryShadowCheckInit_def
      repositoryShadowUpdate_def git_PlainOpen_def fault_free_def
      Repository_FetchContext_def Repository_Remote_def Remote_FetchContext_def Let_def
      record_event_def fun_upd_idem
      split: option.splits if_splits list.splits prod.splits)

text \<open>
  When the shadow step returns a repository, the push step finds the default remote in
  it: it does not panic, and the lookup does not answer \<^verbatim>\<open>ErrRemoteNotFound\<close>.
\<close>

lemma push_after_shadow_step:
  assumes "shadowEnsureUpToDate env p u k w = ((False, Some r, e), w1)"
    and "disk w2 = disk w1"
  shows "fst (repositoryShadowPushToNewOrigin env (Some r) d kd w2) \<noteq> Panic
         \<and> snd (fst (Repository_Remote env r DefaultRemoteName w2)) \<noteq> Some ErrRemoteNotFound"
proof -
  from ensure_success_fixpoint [OF assms(1)] assms(2) obtain st1 cfg where
    "r = Repository p" "disk w2 p = Some st1" "map_of (remotes st1) DefaultRemoteName = Some cfg"
    by auto
  then show ?thesis
    by (auto simp: repositoryShadowPushToNewOrigin_def Repository_Remote_def
        split: option.splits prod.splits)
qed

subsection \<open>The claims\<close>

text \<open>
  Claim C1 asks that a sync pair naming a repository that is not configured fail with a
  configuration error before any further step, without a crash. The program does not
  test the result of either lookup. With an unknown source name it panics at the first
  dereference, the world untouched; with an unknown destination name it creates the
  directory, reads the source key, initialises the shadow and fetches, and panics only
  then, when it reads the destination's key file name.
\<close>

theorem C1_unresolved_name_panics:
  "doRepositoriesSync env_ok rsc_ab \<lparr>SourceName = ''zz'', DestinationName = ''b''\<rparr> world_fresh
     = (Panic, world_fresh)
   \<and> fst (doRepositoriesSync env_ok rsc_ab \<lparr>SourceName = ''a'', DestinationName = ''zz''\<rparr> world_fresh)
     = Panic
   \<and> trace (snd (doRepositoriesSync env_ok rsc_ab \<lparr>SourceName = ''a'', DestinationName = ''zz''\<rparr> world_fresh))
     = [EvMkdirAll shadow_a 644, EvNewPublicKeysFromFile ''git'' ''a.pem'' ''pa'',
        EvPlainOpen shadow_a, EvPlainInit shadow_a True, EvCreateRemote shadow_a origin_a,
        EvFetch shadow_a (URLs origin_a) (Fetch origin_a) keys_a]"
  by (simp add: lib_defs prog_defs fix_defs Let_def)

text \<open>
  Claim C2 asks that an error of the initialise-or-update step abort the sync with that
  error, before the destination credentials are resolved and before the push. Here
  the source cannot be reached: \<^verbatim>\<open>repositoryShadowInit\<close> returns the error of the
  fetch with a nil repository, yet the sync goes on to read the destination key and
  panics in the push step instead of returning the error.
\<close>

theorem C2_init_error_not_checked:
  "fst (repositoryShadowInit env_ok shadow_a (RepoUrl repo_a) keys_a world_fresh_down)
     = (None, Some (OtherError ''repository not found''))
   \<and> fst (doRepositoriesSync env_ok rsc_ab pair_ab world_fresh_down) = Panic
   \<and> trace (snd (doRepositoriesSync env_ok rsc_ab pair_ab world_fresh_down))
     = [EvMkdirAll shadow_a 644, EvNewPublicKeysFromFile ''git'' ''a.pem'' ''pa'',
        EvPlainOpen shadow_a, EvPlainInit shadow_a True, EvCreateRemote shadow_a origin_a,
        EvFetch shadow_a (URLs origin_a) (Fetch origin_a) keys_a,
        EvNewPublicKeysFromFile ''git'' ''b.pem'' ''pb'']"
  by (simp add: lib_defs prog_defs fix_defs Let_def)

text \<open>
  Claim C3 says that after a successful sync the shadow has exactly one remote binding
  whose URL list is exactly the destination URL. The sync below succeeds, and the one
  remote stored in its shadow has the URL list of the source, not of the destination.
\<close>

theorem C3_counterexample:
  "fst (doRepositoriesSync env_ok rsc_ab pair_ab world_fresh) = Val None
   \<and> map_option (map (\<lambda>(n, c). URLs c) \<circ> remotes)
        (disk (snd (doRepositoriesSync env_ok rsc_ab pair_ab world_fresh)) shadow_a)
       = Some [[RepoUrl repo_a]]
   \<and> map_option (map (\<lambda>(n, c). URLs c) \<circ> remotes)
        (disk (snd (doRepositoriesSync env_ok rsc_ab pair_ab world_fresh)) shadow_a)
       \<noteq> Some [[RepoUrl repo_b]]"
  by (simp add: lib_defs prog_defs fix_defs Let_def)

text \<open>
  Claim C3 as amended: after a successful sync the remote bindings stored in the shadow
  are exactly one, the default remote with the source URL as its URL list, when the sync
  created the shadow, and the ones it had before when the shadow existed. The
  destination URL is the whole URL list of the remote the push went through (the last
  call of the sync), a value the program holds in memory only.
\<close>

theorem C3_stored_remote_keeps_source_url:
  assumes "doRepositoriesSync env rsc so w = (Val None, w')"
    and "getRepositoryAccess rsc (SourceName so) = Val (Some src)"
    and "getRepositoryAccess rsc (DestinationName so) = Val (Some dst)"
  shows "map_option remotes
           (disk w' (repositoryShadowPath (RepoUrl src) (ShadowsLocationBasePath rsc)))
         = Some (case disk w (repositoryShadowPath (RepoUrl src) (ShadowsLocationBasePath rsc)) of
                   None \<Rightarrow> [(DefaultRemoteName,
                              \<lparr>Name = DefaultRemoteName, URLs = [RepoUrl src],
                                 Fetch = [mirror_refspec]\<rparr>)]
                 | Some st \<Rightarrow> remotes st)
       \<and> (\<exists>kd. last (trace w')
             = EvPush (repositoryShadowPath (RepoUrl src) (ShadowsLocationBasePath rsc))
                 [RepoUrl dst] [mirror_refspec] kd)"
  using assms(1,2)
proof (cases rule: sync_stages)
  case dst_lookup_panic
  then show ?thesis by simp
next
  case (mkdir_failed x err)
  then show ?thesis by simp
next
  case (src_key_failed p w1 kr)
  with key_read_cases [of env _ _ _ w1 "fst kr" "snd kr" w'] show ?thesis
    by (cases kr) auto
next
  case (open_failed p w1 k w2 r err)
  with ensure_fatal [OF open_failed(3)] show ?thesis by auto
next
  case (dst_nil p w1 k w2 r err)
  then show ?thesis by simp
next
  case (dst_key_failed p w1 k w2 r err w3 dst' kr)
  with key_read_cases [of env _ _ _ w3 "fst kr" "snd kr" w'] show ?thesis
    by (cases kr) auto
next
  case (pushed p w1 k w2 r err w3 dst' kd w4)
  let ?P = "repositoryShadowPath (RepoUrl src) (ShadowsLocationBasePath rsc)"
  have dst: "dst' = dst" using pushed(4) assms(3) by simp
  have p: "p = ?P" using pushed(1) by (rule create_dir_path)
  note f1 = create_dir_frame [OF pushed(1)]
  note f2 = key_read_frame [OF pushed(2)]
  note f4 = key_read_frame [OF pushed(5)]
  from push_done [OF pushed(6)] obtain rp where
    rp: "r = Some rp" "trace w' = trace w4 @ [EvPush (Storer rp) [RepoUrl dst'] [mirror_refspec] kd]"
    by blast
  from pushed(3) rp(1) have "shadowEnsureUpToDate env p (RepoUrl src) k w2 = ((False, Some rp, err), w3)"
    by simp
  note f3 = ensure_done [OF this]
  note f5 = push_frame [OF pushed(6)]
  from f1 f2 f3 f4 f5 rp p dst show ?thesis by auto
qed

text \<open>The amended claim at the sync of a fresh shadow.\<close>

theorem C3_stored_remote_keeps_source_url_witness:
  "doRepositoriesSync env_ok rsc_ab pair_ab world_fresh
     = (Val None, snd (doRepositoriesSync env_ok rsc_ab pair_ab world_fresh))
   \<and> getRepositoryAccess rsc_ab (SourceName pair_ab) = Val (Some repo_a)
   \<and> getRepositoryAccess rsc_ab (DestinationName pair_ab) = Val (Some repo_b)
   \<and> map_option remotes (disk (snd (doRepositoriesSync env_ok rsc_ab pair_ab world_fresh)) shadow_a)
       = Some [(''origin'', origin_a)]
   \<and> last (trace (snd (doRepositoriesSync env_ok rsc_ab pair_ab world_fresh)))
       = EvPush shadow_a [RepoUrl repo_b] [mirror_refspec] keys_b"
  using C3_stored_remote_keeps_source_url [of env_ok rsc_ab pair_ab world_fresh
      "snd (doRepositoriesSync env_ok rsc_ab pair_ab world_fresh)" repo_a repo_b]
  by (simp add: lib_defs prog_defs fix_defs Let_def)

text \<open>
  Claim C4: "already up to date" is success. Whatever the fetch of the initialisation,
  the fetch of the update or the push returns, the function around it returns no error
  when the call returned none or returned \<^verbatim>\<open>NoErrAlreadyUpToDate\<close>, and returns the
  call's error in every other case.
\<close>

theorem C4_already_up_to_date_is_success:
  "(git_PlainInit env p True w = ((Some r, None), w1)
      \<and> Repository_CreateRemote env r
            \<lparr>Name = DefaultRemoteName, URLs = [u], Fetch = [mirror_refspec]\<rparr> w1
          = ((Some rem, None), w2)
      \<and> Remote_FetchContext env rem k w2 = (ferr, w3)
    \<longrightarrow> repositoryShadowInit env p u k w
        = (if ferr = None \<or> ferr = Some NoErrAlreadyUpToDate then (Some r, None) else (None, ferr),
           w3))
   \<and> (git_PlainOpen env pu wu = ((Some ru, None), wu1)
      \<and> Repository_FetchContext env ru DefaultRemoteName ku wu1 = (ferru, wu2)
    \<longrightarrow> repositoryShadowUpdate env pu ku wu
        = (if ferru = None \<or> ferru = Some NoErrAlreadyUpToDate then (Some ru, None)
           else (None, ferru),
           wu2))
   \<and> (Repository_Remote env rp DefaultRemoteName wp = ((Some rd, None), wp1)
      \<and> Remote_PushContext env (Remote ((remote_c rd)\<lparr>URLs := [d]\<rparr>) (remote_s rd)) kp
            [mirror_refspec] wp1 = (perr, wp2)
    \<longrightarrow> repositoryShadowPushToNewOrigin env (Some rp) d kp wp
        = (Val (if perr = None \<or> perr = Some NoErrAlreadyUpToDate then None else perr), wp2))"
  by (auto simp: repositoryShadowInit_def repositoryShadowUpdate_def
      repositoryShadowPushToNewOrigin_def)

text \<open>
  The initialisation fetches into a repository it has just created, so a source with
  references gives it a fetch that returns no error, and a source without references
  one that returns the empty-remote error, which the initialisation returns. The
  update and the push report "already up to date" in the world a first sync has left,
  and both functions return no error.
\<close>

theorem C4_already_up_to_date_is_success_witness:
  "fst (Remote_FetchContext env_ok (Remote origin_a shadow_a) keys_a
          (snd (Repository_CreateRemote env_ok (Repository shadow_a) origin_a
                  (snd (git_PlainInit env_ok shadow_a True world_fresh)))))
     = None
   \<and> fst (repositoryShadowInit env_ok shadow_a (RepoUrl repo_a) keys_a world_fresh)
     = (Some (Repository shadow_a), None)
   \<and> fst (Remote_FetchContext env_ok (Remote origin_a shadow_a) keys_a
          (snd (Repository_CreateRemote env_ok (Repository shadow_a) origin_a
                  (snd (git_PlainInit env_ok shadow_a True world_fresh_empty)))))
     = Some (OtherError ''remote repository is empty'')
   \<and> fst (repositoryShadowInit env_ok shadow_a (RepoUrl repo_a) keys_a world_fresh_empty)
     = (None, Some (OtherError ''remote repository is empty''))
   \<and> fst (Repository_FetchContext env_ok (Repository shadow_a) DefaultRemoteName keys_a
            (snd (git_PlainOpen env_ok shadow_a world_after_sync)))
     = Some NoErrAlreadyUpToDate
   \<and> fst (repositoryShadowUpdate env_ok shadow_a keys_a world_after_sync)
     = (Some (Repository shadow_a), None)
   \<and> fst (Remote_PushContext env_ok (Remote (origin_a\<lparr>URLs := [RepoUrl repo_b]\<rparr>) shadow_a) keys_b
            [mirror_refspec] world_after_sync)
     = Some NoErrAlreadyUpToDate
   \<and> fst (repositoryShadowPushToNewOrigin env_ok (Some (Repository shadow_a)) (RepoUrl repo_b)
            keys_b world_after_sync)
     = Val None"
  using C4_already_up_to_date_is_success [where env = env_ok and p = shadow_a and w = world_fresh
      and r = "Repository shadow_a" and ?w1.0 = "snd (git_PlainInit env_ok shadow_a True world_fresh)"
      and u = "RepoUrl repo_a" and rem = "Remote origin_a shadow_a"
      and ?w2.0 = "snd (Repository_CreateRemote env_ok (Repository shadow_a) origin_a
                  (snd (git_PlainInit env_ok shadow_a True world_fresh)))"
      and k = keys_a and ferr = None
      and ?w3.0 = "snd (repositoryShadowInit env_ok shadow_a (RepoUrl repo_a) keys_a world_fresh)"
      and pu = shadow_a and wu = world_after_sync and ru = "Repository shadow_a"
      and ?wu1.0 = "snd (git_PlainOpen env_ok shadow_a world_after_sync)" and ku = keys_a
      and ferru = "Some NoErrAlreadyUpToDate"
      and ?wu2.0 = "snd (repositoryShadowUpdate env_ok shadow_a keys_a world_after_sync)"
      and rp = "Repository shadow_a" and wp = world_after_sync
      and rd = "Remote origin_a shadow_a" and ?wp1.0 = world_after_sync
      and d = "RepoUrl repo_b" and kp = keys_b and perr = "Some NoErrAlreadyUpToDate"
      and ?wp2.0 = "snd (repositoryShadowPushToNewOrigin env_ok (Some (Repository shadow_a))
            (RepoUrl repo_b) keys_b world_after_sync)"]
    C4_already_up_to_date_is_success [where env = env_ok and p = shadow_a and w = world_fresh_empty
      and r = "Repository shadow_a"
      and ?w1.0 = "snd (git_PlainInit env_ok shadow_a True world_fresh_empty)"
      and u = "RepoUrl repo_a" and rem = "Remote origin_a shadow_a"
      and ?w2.0 = "snd (Repository_CreateRemote env_ok (Repository shadow_a) origin_a
                  (snd (git_PlainInit env_ok shadow_a True world_fresh_empty)))"
      and k = keys_a and ferr = "Some (OtherError ''remote repository is empty'')"
      and ?w3.0 = "snd (repositoryShadowInit env_ok shadow_a (RepoUrl repo_a) keys_a
                          world_fresh_empty)"
      and pu = shadow_a and wu = world_after_sync and ru = "Repository shadow_a"
      and ?wu1.0 = "snd (git_PlainOpen env_ok shadow_a world_after_sync)" and ku = keys_a
      and ferru = "Some NoErrAlreadyUpToDate"
      and ?wu2.0 = "snd (repositoryShadowUpdate env_ok shadow_a keys_a world_after_sync)"
      and rp = "Repository shadow_a" and wp = world_after_sync
      and rd = "Remote origin_a shadow_a" and ?wp1.0 = world_after_sync
      and d = "RepoUrl repo_b" and kp = keys_b and perr = "Some NoErrAlreadyUpToDate"
      and ?wp2.0 = "snd (repositoryShadowPushToNewOrigin env_ok (Some (Repository shadow_a))
            (RepoUrl repo_b) keys_b world_after_sync)"]
  by (simp add: lib_defs prog_defs fix_defs world_after_sync_def Let_def)

text \<open>
  Claim C5: what opening the shadow path leads to. \<^verbatim>\<open>repositoryShadowCheckInit\<close> turns
  \<^verbatim>\<open>ErrRepositoryNotExists\<close> into "no repository, no error" and returns every other
  error of the open. Lines 212 to 221 run the initialisation exactly when the open does
  not fail and no repository is at the path, the update exactly when it does not fail
  and one is there, and neither when the open fails; the sync then returns that error.
\<close>

theorem C5_open_outcomes:
  "(git_PlainOpen env p w = ((r, err), w1)
    \<longrightarrow> repositoryShadowCheckInit env p w
        = (if err = Some ErrRepositoryNotExists then (None, None)
           else if err = None then (r, None) else (None, err), w1))
   \<and> shadowEnsureUpToDate env p u k w
       = (case open_fault env p w of
            Some m \<Rightarrow> ((True, None, Some (OtherError m)), record_event (EvPlainOpen p) w)
          | None \<Rightarrow>
              (case disk w p of
                 None \<Rightarrow>
                   (case repositoryShadowInit env p u k (record_event (EvPlainOpen p) w) of
                      ((r', err'), w2) \<Rightarrow> ((False, r', err'), w2))
               | Some st \<Rightarrow>
                   (case repositoryShadowUpdate env p k (record_event (EvPlainOpen p) w) of
                      ((r', err'), w2) \<Rightarrow> ((False, r', err'), w2))))
   \<and> (getRepositoryAccess rsc (SourceName so) = Val (Some src)
      \<and> getRepositoryAccess rsc (DestinationName so) = Val dst
      \<and> repositoryShadowCreateDir env (RepoUrl src) (ShadowsLocationBasePath rsc) ws = ((ps, None), ws1)
      \<and> repositorySshKeyRead env (RepoPemFileName src) (RepoPemFilePassword src)
            (RepoSkipHostKeyValidation src) ws1 = ((Some ks, None), ws2)
      \<and> open_fault env ps ws2 = Some m
    \<longrightarrow> doRepositoriesSync env rsc so ws
        = (Val (Some (OtherError m)), record_event (EvPlainOpen ps) ws2))"
  by (auto simp: repositoryShadowCheckInit_def shadowEnsureUpToDate_def git_PlainOpen_def
      doRepositoriesSync_def split: option.splits)

text \<open>
  A path that cannot be opened: the sync returns the error and stops after the open.
  A path without a repository and a path with one: no error, and the repository only
  in the second case.
\<close>

theorem C5_open_outcomes_witness:
  "git_PlainOpen env_open_denied shadow_a world_synced
     = ((None, Some (OtherError ''permission denied'')), record_event (EvPlainOpen shadow_a) world_synced)
   \<and> repositoryShadowCheckInit env_open_denied shadow_a world_synced
     = ((None, Some (OtherError ''permission denied'')), record_event (EvPlainOpen shadow_a) world_synced)
   \<and> fst (doRepositoriesSync env_open_denied rsc_ab pair_ab world_synced)
     = Val (Some (OtherError ''permission denied''))
   \<and> trace (snd (doRepositoriesSync env_open_denied rsc_ab pair_ab world_synced))
     = [EvMkdirAll shadow_a 644, EvNewPublicKeysFromFile ''git'' ''a.pem'' ''pa'',
        EvPlainOpen shadow_a]
   \<and> fst (repositoryShadowCheckInit env_ok shadow_a world_fresh) = (None, None)
   \<and> fst (repositoryShadowCheckInit env_ok shadow_a world_synced)
     = (Some (Repository shadow_a), None)"
  using C5_open_outcomes [where env = env_open_denied and p = shadow_a and w = world_synced
      and r = None and err = "Some (OtherError ''permission denied'')"
      and ?w1.0 = "record_event (EvPlainOpen shadow_a) world_synced"
      and rsc = rsc_ab and so = pair_ab and src = repo_a and dst = "Some repo_b"
      and ws = world_synced and ps = shadow_a
      and ?ws1.0 = "snd (repositoryShadowCreateDir env_open_denied (RepoUrl repo_a) ''/var/shadows''
                          world_synced)"
      and ks = keys_a
      and ?ws2.0 = "snd (repositorySshKeyRead env_open_denied ''a.pem'' ''pa'' False
                     (snd (repositoryShadowCreateDir env_open_denied (RepoUrl repo_a) ''/var/shadows''
                          world_synced)))"
      and m = "''permission denied''"]
  by (simp add: lib_defs prog_defs fix_defs env_open_denied_def Let_def)

text \<open>
  Claim C6: the permission argument of the recursive directory creation is the decimal
  numeral 644. That is not octal 644, it has none of the execute bits (octal 111), and
  read as a mode it is octal 1204.
\<close>

theorem C6_mkdir_permission_literal:
  "trace (snd (repositoryShadowCreateDir env u b w))
     = trace w @ [EvMkdirAll (repositoryShadowPath u b) 644]
   \<and> (644 :: 32 word) \<noteq> octal [6, 4, 4]
   \<and> (644 :: 32 word) AND octal [1, 1, 1] = 0
   \<and> (644 :: 32 word) = octal [1, 2, 0, 4]"
  by (simp add: repositoryShadowCreateDir_def repositoryShadowPath_def os_MkdirAll_def
      record_event_def octal_def Let_def split: option.splits)

text \<open>
  Claim C7: the shadow path is the base path joined with the lowercase hex encoding of
  the SHA-256 digest of the bytes of the URL. The directory creation succeeds whenever
  the file system lets it, every successful call returns that path, and two calls with
  the same URL and base return the same path in any two worlds and environments.
\<close>

theorem C7_shadow_path_derivation:
  "(mkdir_fault env (filepath_Join [b, hex_EncodeToString (sha256_Sum (string_bytes u))]) w = None
      \<longrightarrow> fst (repositoryShadowCreateDir env u b w)
            = (filepath_Join [b, hex_EncodeToString (sha256_Sum (string_bytes u))], None))
   \<and> (fst (repositoryShadowCreateDir env u b w) = (p, None)
      \<longrightarrow> p = filepath_Join [b, hex_EncodeToString (sha256_Sum (string_bytes u))])
   \<and> (fst (repositoryShadowCreateDir env u b w) = (p, None)
        \<and> fst (repositoryShadowCreateDir env' u b w') = (p', None)
      \<longrightarrow> p' = p)"
  by (auto simp add: repositoryShadowCreateDir_def os_MkdirAll_def Let_def split: option.splits)

text \<open>
  The derivation at the URL \<^verbatim>\<open>abc\<close> and the base \<^verbatim>\<open>/var/shadows\<close>, in two worlds.
\<close>

theorem C7_shadow_path_derivation_witness:
  "mkdir_fault env_ok (filepath_Join [''/var/shadows'', hex_EncodeToString (sha256_Sum (string_bytes ''abc''))])
      world_fresh = None
   \<and> fst (repositoryShadowCreateDir env_ok ''abc'' ''/var/shadows'' world_fresh)
      = (''/var/shadows/ba7816bf8f01cfea414140de5dae2223b00361a396177a9cb410ff61f20015ad'', None)
   \<and> fst (repositoryShadowCreateDir env_ok ''abc'' ''/var/shadows'' world_synced_down)
      = (''/var/shadows/ba7816bf8f01cfea414140de5dae2223b00361a396177a9cb410ff61f20015ad'', None)"
  using C7_shadow_path_derivation [of env_ok "''/var/shadows''" "''abc''" world_fresh
      "''/var/shadows/ba7816bf8f01cfea414140de5dae2223b00361a396177a9cb410ff61f20015ad''"
      env_ok world_synced_down
      "''/var/shadows/ba7816bf8f01cfea414140de5dae2223b00361a396177a9cb410ff61f20015ad''"]
  by (simp add: sha256_abc env_ok_def filepath_Join_def filepath_Clean_def clean_step_def
      repositoryShadowCreateDir_def os_MkdirAll_def Let_def)

text \<open>
  Claim C8 says that for every shadow state with no upstream change two calls in a row
  of the initialise-or-update step (lines 212 to 221) both report success. Here no
  shadow exists, nothing in the environment fails and the source, which can be
  reached, has no reference: the fetch of the first call returns go-git's empty-remote
  error and the call returns it with a nil repository; the source is as it was, the
  second call finds the repository the first one created and returns the same error.
\<close>

theorem C8_counterexample:
  "fst (shadowEnsureUpToDate env_ok shadow_a (RepoUrl repo_a) keys_a world_fresh_empty)
     = (False, None, Some (OtherError ''remote repository is empty''))
   \<and> upstream (snd (shadowEnsureUpToDate env_ok shadow_a (RepoUrl repo_a) keys_a world_fresh_empty))
        (RepoUrl repo_a)
     = upstream world_fresh_empty (RepoUrl repo_a)
   \<and> fst (shadowEnsureUpToDate env_ok shadow_a (RepoUrl repo_a) keys_a
            (snd (shadowEnsureUpToDate env_ok shadow_a (RepoUrl repo_a) keys_a world_fresh_empty)))
     = (False, None, Some (OtherError ''remote repository is empty''))"
  by (simp add: lib_defs prog_defs fix_defs Let_def)

text \<open>
  Claim C8 as amended: the step is idempotent where the source has references. The
  first call reports success whenever nothing in the environment fails and the shadow
  is absent, or present as the initialisation leaves it, its source within reach and
  advertising a reference under \<^verbatim>\<open>refs/\<close>. After a first call that reported success, a
  second call in a row leaves the disk, and so the shadow's references, as the first
  call left them, in every environment; and it reports success too when nothing in the
  environment fails.
\<close>

theorem C8_ensure_up_to_date_idempotent:
  assumes first: "shadowEnsureUpToDate env p u k w = (res1, w1)"
    and second: "shadowEnsureUpToDate env p u k w1 = (res2, w2)"
  shows "(fault_free env \<and> shadow_state_ok w p u
            \<longrightarrow> res1 = (False, Some (Repository p), None))
         \<and> (res1 = (False, Some (Repository p), None)
            \<longrightarrow> disk w1 p \<noteq> None
                \<and> map_option refs (disk w2 p) = map_option refs (disk w1 p)
                \<and> disk w2 = disk w1
                \<and> (fault_free env \<longrightarrow> res2 = (False, Some (Repository p), None)))"
proof (rule conjI)
  show "fault_free env \<and> shadow_state_ok w p u \<longrightarrow> res1 = (False, Some (Repository p), None)"
  proof
    assume a: "fault_free env \<and> shadow_state_ok w p u"
    show "res1 = (False, Some (Repository p), None)"
    proof (cases "disk w p")
      case None
      with a have "has_refs w u" by (simp add: shadow_state_ok_def)
      from has_refs_upstream [OF this] obtain adv where "upstream w u = Some adv" and "adv \<noteq> []"
        by blast
      from init_unhindered [OF _ None this, of env k] a first show ?thesis by auto
    next
      case (Some st)
      with a obtain cfg x xs where cfg: "map_of (remotes st) DefaultRemoteName = Some cfg"
        "Fetch cfg = [mirror_refspec]" "URLs cfg = x # xs" and "has_refs w x"
        by (auto simp: shadow_state_ok_def split: option.splits list.splits)
      from has_refs_upstream [OF this(4)] obtain adv where "upstream w x = Some adv" and "adv \<noteq> []"
        by blast
      from update_unhindered [OF _ Some cfg this, of env u k] a first show ?thesis by auto
    qed
  qed
next
  show "res1 = (False, Some (Repository p), None)
        \<longrightarrow> disk w1 p \<noteq> None
            \<and> map_option refs (disk w2 p) = map_option refs (disk w1 p)
            \<and> disk w2 = disk w1
            \<and> (fault_free env \<longrightarrow> res2 = (False, Some (Repository p), None))"
  proof
    assume "res1 = (False, Some (Repository p), None)"
    with first have "shadowEnsureUpToDate env p u k w = ((False, Some (Repository p), None), w1)"
      by simp
    from ensure_success_fixpoint [OF this] obtain st1 cfg x xs adv where
      fp: "disk w1 p = Some st1" "map_of (remotes st1) DefaultRemoteName = Some cfg"
        "Fetch cfg = [mirror_refspec]" "URLs cfg = x # xs" "upstream w1 x = Some adv"
        "adv \<noteq> []"
        "up_to_date (under_refs adv) (refs st1)
         \<or> force_update (under_refs adv) (refs st1) = refs st1"
      by blast
    from ensure_at_fixpoint [OF fp second] fp(1)
    show "disk w1 p \<noteq> None
            \<and> map_option refs (disk w2 p) = map_option refs (disk w1 p)
            \<and> disk w2 = disk w1
            \<and> (fault_free env \<longrightarrow> res2 = (False, Some (Repository p), None))"
      by simp
  qed
qed

text \<open>
  Two calls in a row on a path without a shadow: both report success, and the
  references are the same after the second call as after the first.
\<close>

theorem C8_ensure_up_to_date_idempotent_witness:
  "fault_free env_ok
   \<and> shadow_state_ok world_fresh shadow_a (RepoUrl repo_a)
   \<and> fst (shadowEnsureUpToDate env_ok shadow_a (RepoUrl repo_a) keys_a world_fresh)
       = (False, Some (Repository shadow_a), None)
   \<and> fst (shadowEnsureUpToDate env_ok shadow_a (RepoUrl repo_a) keys_a
            (snd (shadowEnsureUpToDate env_ok shadow_a (RepoUrl repo_a) keys_a world_fresh)))
       = (False, Some (Repository shadow_a), None)
   \<and> map_option refs
        (disk (snd (shadowEnsureUpToDate env_ok shadow_a (RepoUrl repo_a) keys_a world_fresh))
           shadow_a)
       = Some [(''refs/heads/main'', ''c1'')]
   \<and> map_option refs
        (disk (snd (shadowEnsureUpToDate env_ok shadow_a (RepoUrl repo_a) keys_a
            (snd (shadowEnsureUpToDate env_ok shadow_a (RepoUrl repo_a) keys_a world_fresh))))
           shadow_a)
       = Some [(''refs/heads/main'', ''c1'')]"
  using C8_ensure_up_to_date_idempotent [where env = env_ok and p = shadow_a
      and u = "RepoUrl repo_a" and k = keys_a and w = world_fresh
      and ?res1.0 = "fst (shadowEnsureUpToDate env_ok shadow_a (RepoUrl repo_a) keys_a world_fresh)"
      and ?w1.0 = "snd (shadowEnsureUpToDate env_ok shadow_a (RepoUrl repo_a) keys_a world_fresh)"
      and ?res2.0 = "fst (shadowEnsureUpToDate env_ok shadow_a (RepoUrl repo_a) keys_a
            (snd (shadowEnsureUpToDate env_ok shadow_a (RepoUrl repo_a) keys_a world_fresh)))"
      and ?w2.0 = "snd (shadowEnsureUpToDate env_ok shadow_a (RepoUrl repo_a) keys_a
            (snd (shadowEnsureUpToDate env_ok shadow_a (RepoUrl repo_a) keys_a world_fresh)))"]
  by (simp add: lib_defs prog_defs fix_defs Let_def fault_free_def shadow_state_ok_def has_refs_def)

text \<open>
  Claim C9 says that the push step never receives a nil repository and never
  dereferences a nil remote. Here an earlier sync left the shadow on disk and the
  source cannot be reached: \<^verbatim>\<open>repositoryShadowUpdate\<close> returns a nil repository with
  the error, the sync passes that nil repository to the push step, and the push step
  panics on it.
\<close>

theorem C9_nil_repository_reaches_push:
  "fst (repositoryShadowUpdate env_ok shadow_a keys_a world_synced_down)
     = (None, Some (OtherError ''repository not found''))
   \<and> fst (doRepositoriesSync env_ok rsc_ab pair_ab world_synced_down) = Panic
   \<and> repositoryShadowPushToNewOrigin env_ok None (RepoUrl repo_b) keys_b world_synced_down
     = (Panic, world_synced_down)"
  by (simp add: lib_defs prog_defs fix_defs Let_def)

text \<open>
  Claim C10: the rewrite of the URL list before the push is not stored. The push step
  leaves the disk as it was; a sync that finds its shadow on disk leaves the shadow's
  stored remotes as they were, whatever its outcome, and every fetch it makes goes to
  the URL list stored for the default remote. So the stored URL list stays the one
  written when the shadow was created, and every later sync fetches from it.
\<close>

theorem C10_rewrite_is_not_stored:
  "(repositoryShadowPushToNewOrigin env r d k w0 = (pres, w0') \<longrightarrow> disk w0' = disk w0)
   \<and> (doRepositoriesSync env rsc so w = (res, w')
        \<and> getRepositoryAccess rsc (SourceName so) = Val (Some src)
        \<and> disk w (repositoryShadowPath (RepoUrl src) (ShadowsLocationBasePath rsc)) = Some st
      \<longrightarrow> map_option remotes
            (disk w' (repositoryShadowPath (RepoUrl src) (ShadowsLocationBasePath rsc)))
            = Some (remotes st)
          \<and> (\<forall>urls \<in> set (fetch_urls (drop (length (trace w)) (trace w'))).
                map_option URLs (map_of (remotes st) DefaultRemoteName) = Some urls))"
proof (rule conjI)
  show "repositoryShadowPushToNewOrigin env r d k w0 = (pres, w0') \<longrightarrow> disk w0' = disk w0"
    by (auto dest: push_frame)
next
  let ?P = "repositoryShadowPath (RepoUrl src) (ShadowsLocationBasePath rsc)"
  let ?ok = "\<lambda>evs. \<forall>urls \<in> set (fetch_urls evs).
                map_option URLs (map_of (remotes st) DefaultRemoteName) = Some urls"
  have "(\<exists>st'. disk w' ?P = Some st' \<and> remotes st' = remotes st)
        \<and> (\<exists>evs. trace w' = trace w @ evs \<and> ?ok evs)"
    if a: "doRepositoriesSync env rsc so w = (res, w')
        \<and> getRepositoryAccess rsc (SourceName so) = Val (Some src)
        \<and> disk w ?P = Some st"
  proof -
  from a have run: "doRepositoriesSync env rsc so w = (res, w')"
    and src: "getRepositoryAccess rsc (SourceName so) = Val (Some src)"
    and st: "disk w ?P = Some st" by simp_all
  show ?thesis
    using run src
  proof (cases rule: sync_stages)
    case dst_lookup_panic
    with st show ?thesis by simp
  next
    case (mkdir_failed x err)
    from create_dir_frame [OF mkdir_failed(1)] st show ?thesis by simp
  next
    case (src_key_failed p w1 kr)
    from create_dir_frame [OF src_key_failed(1)] key_read_frame [OF src_key_failed(2)] st
    show ?thesis by simp
  next
    case (open_failed p w1 k w2 r err)
    note f1 = create_dir_frame [OF open_failed(1)]
    note f2 = key_read_frame [OF open_failed(2)]
    have p: "p = ?P" using open_failed(1) by (rule create_dir_path)
    from ensure_fatal [OF open_failed(3)] f1 f2 st show ?thesis
      by (auto simp: record_event_def)
  next
    case (dst_nil p w1 k w2 r err)
    note f1 = create_dir_frame [OF dst_nil(1)]
    note f2 = key_read_frame [OF dst_nil(2)]
    have p: "p = ?P" using dst_nil(1) by (rule create_dir_path)
    have st2: "disk w2 p = Some st" using f1 f2 st p by simp
    from ensure_existing [OF dst_nil(3) st2] ensure_trace_existing [OF dst_nil(3) st2] f1 f2 p
    show ?thesis by auto
  next
    case (dst_key_failed p w1 k w2 r err w3 dst kr)
    note f1 = create_dir_frame [OF dst_key_failed(1)]
    note f2 = key_read_frame [OF dst_key_failed(2)]
    note f4 = key_read_frame [OF dst_key_failed(5)]
    have p: "p = ?P" using dst_key_failed(1) by (rule create_dir_path)
    have st2: "disk w2 p = Some st" using f1 f2 st p by simp
    from ensure_existing [OF dst_key_failed(3) st2] ensure_trace_existing [OF dst_key_failed(3) st2]
      f1 f2 f4 p
    show ?thesis by auto
  next
    case (pushed p w1 k w2 r err w3 dst kd w4)
    note f1 = create_dir_frame [OF pushed(1)]
    note f2 = key_read_frame [OF pushed(2)]
    note f4 = key_read_frame [OF pushed(5)]
    note f5 = push_frame [OF pushed(6)]
    have p: "p = ?P" using pushed(1) by (rule create_dir_path)
    have st2: "disk w2 p = Some st" using f1 f2 st p by simp
    from push_trace [OF pushed(6)] obtain evs5 where
      e5: "trace w' = trace w4 @ evs5" "fetch_urls evs5 = []" by blast
    from ensure_trace_existing [OF pushed(3) st2] obtain evs3 where
      e3: "trace w3 = trace w2 @ evs3" "?ok evs3" by blast
    from ensure_existing [OF pushed(3) st2] f1 f2 f4 f5 p e3 e5
    show ?thesis by auto
  qed
  qed
  then show "doRepositoriesSync env rsc so w = (res, w')
        \<and> getRepositoryAccess rsc (SourceName so) = Val (Some src)
        \<and> disk w ?P = Some st
      \<longrightarrow> map_option remotes (disk w' ?P) = Some (remotes st)
          \<and> (\<forall>urls \<in> set (fetch_urls (drop (length (trace w)) (trace w'))).
                map_option URLs (map_of (remotes st) DefaultRemoteName) = Some urls)"
    by auto
qed

text \<open>A sync on the shadow of an earlier sync: it fetches from the source URL.\<close>

theorem C10_rewrite_is_not_stored_witness:
  "fst (repositoryShadowPushToNewOrigin env_ok (Some (Repository shadow_a)) (RepoUrl repo_b) keys_b
          world_synced) = Val None
   \<and> disk (snd (repositoryShadowPushToNewOrigin env_ok (Some (Repository shadow_a)) (RepoUrl repo_b)
          keys_b world_synced)) = disk world_synced
   \<and> fst (doRepositoriesSync env_ok rsc_ab pair_ab world_synced) = Val None
   \<and> getRepositoryAccess rsc_ab (SourceName pair_ab) = Val (Some repo_a)
   \<and> disk world_synced shadow_a
       = Some \<lparr>remotes = [(''origin'', origin_a)], refs = [(''refs/heads/main'', ''c1'')]\<rparr>
   \<and> map_option remotes (disk (snd (doRepositoriesSync env_ok rsc_ab pair_ab world_synced)) shadow_a)
       = Some [(''origin'', origin_a)]
   \<and> fetch_urls (trace (snd (doRepositoriesSync env_ok rsc_ab pair_ab world_synced)))
       = [[RepoUrl repo_a]]"
  using C10_rewrite_is_not_stored [where env = env_ok and r = "Some (Repository shadow_a)"
      and d = "RepoUrl repo_b" and k = keys_b and ?w0.0 = world_synced
      and pres = "fst (repositoryShadowPushToNewOrigin env_ok (Some (Repository shadow_a))
              (RepoUrl repo_b) keys_b world_synced)"
      and w0' = "snd (repositoryShadowPushToNewOrigin env_ok (Some (Repository shadow_a))
              (RepoUrl repo_b) keys_b world_synced)"
      and rsc = rsc_ab and so = pair_ab and w = world_synced
      and res = "fst (doRepositoriesSync env_ok rsc_ab pair_ab world_synced)"
      and w' = "snd (doRepositoriesSync env_ok rsc_ab pair_ab world_synced)" and src = repo_a
      and st = "\<lparr>remotes = [(''origin'', origin_a)], refs = [(''refs/heads/main'', ''c1'')]\<rparr>"]
  by (simp add: lib_defs prog_defs fix_defs Let_def)

end
